theory Spec2Isabelle
  imports Main "HOL-Library.Sublist" "HOL-Library.Char_ord" "HOL-Library.List_Lexorder"
    "HOL-Library.AList" "HOL-Library.Multiset"
begin

chapter \<open>Database provider and multi-environment loading of dolt\<close>

text \<open>
  A shallow embedding of two Go files of the repository: the multi-repository environment
  loader (package \<open>env\<close>: \<open>MultiEnvForDirectory\<close>, \<open>enforceSingleFormat\<close>,
  \<open>dirToDBName\<close>, \<open>getRepoRootDir\<close>) and the SQL database provider
  (\<open>database_provider.go\<close>, package \<open>sqle\<close>).

  Go strings are byte sequences and are modelled as \<open>string\<close>. The functions of Go's
  standard library that decode runes and classify or convert them (\<open>unicode.IsSpace\<close>,
  \<open>strings.TrimSpace\<close>, \<open>strings.Map\<close>, \<open>strings.ToLower\<close>, \<open>strings.ToUpper\<close>) are
  modelled on ASCII strings only, where a rune is one byte: on a string with a byte above
  \<open>0x7F\<close> the definitions below are not the functions of Go, and a statement about such
  names is made under the hypothesis \<open>isASCII\<close>.
\<close>

section \<open>Errors\<close>

text \<open>
  An error value of Go. \<open>ErrDatabaseNotFound\<close> and \<open>ErrDatabaseExists\<close> are the two
  error kinds of the SQL engine the provider creates by name; \<open>Errorf\<close> is an error made
  by \<open>fmt.Errorf\<close> with its message; \<open>ExternalError\<close> is an error returned by a
  collaborator outside the modelled files (storage, file system, network). A run-time panic
  (an index out of range, a failed type assertion) is the value \<open>Panic\<close>: no handler of the
  modelled code recovers from it.
\<close>

datatype error =
    ErrDatabaseNotFound string
  | ErrDatabaseExists string
  | Errorf string
  | ExternalError string
  | Panic string

section \<open>Strings\<close>

text \<open>An ASCII string: no byte has its highest bit set.\<close>

definition isASCII :: "string \<Rightarrow> bool" where
  "isASCII s = list_all (\<lambda>c. \<not> digit7 c) s"

text \<open>\<open>unicode.IsSpace\<close> on an ASCII character: tab, line feed, vertical tab, form feed,
  carriage return and space. (Of the other white space of Unicode, none is ASCII.)\<close>

definition isSpace :: "char \<Rightarrow> bool" where
  "isSpace r = (r \<in> {CHR 0x09, CHR 0x0A, CHR 0x0B, CHR 0x0C, CHR 0x0D, CHR '' ''})"

text \<open>\<open>strings.TrimSpace\<close> on an ASCII string: leading and trailing white space
  removed.\<close>

definition TrimSpace :: "string \<Rightarrow> string" where
  "TrimSpace s = rev (dropWhile isSpace (rev (dropWhile isSpace s)))"

text \<open>\<open>strings.ReplaceAll(s, "__", "_")\<close>: the non-overlapping occurrences of two
  underscores, found from the left, are each replaced by one underscore.\<close>

fun ReplaceAll_uu :: "string \<Rightarrow> string" where
  "ReplaceAll_uu (a # b # s) =
     (if a = CHR ''_'' \<and> b = CHR ''_'' then CHR ''_'' # ReplaceAll_uu s
      else a # ReplaceAll_uu (b # s))"
| "ReplaceAll_uu s = s"

lemma ReplaceAll_uu_length: "length (ReplaceAll_uu s) \<le> length s"
  by (induction s rule: ReplaceAll_uu.induct) auto

lemma ReplaceAll_uu_shorter:
  "ReplaceAll_uu s \<noteq> s \<Longrightarrow> length (ReplaceAll_uu s) < length s"
proof (induction s rule: ReplaceAll_uu.induct)
  case (1 a b s)
  then show ?case using ReplaceAll_uu_length [of s] by (auto split: if_splits)
qed auto

section \<open>Directory names as database names\<close>

text \<open>
  \<^verbatim>\<open>
  func dirToDBName(dirName string) string {
      dbName := strings.TrimSpace(dirName)
      dbName = strings.Map(func(r rune) rune {
          if unicode.IsSpace(r) || r == '-' { return '_' }
          return r
      }, dbName)
      newDBName := strings.ReplaceAll(dbName, "__", "_")
      for dbName != newDBName {
          dbName = newDBName
          newDBName = strings.ReplaceAll(dbName, "__", "_")
      }
      return dbName
  }
  \<close>
  The loop is the function \<open>collapse\<close> on the pair of variables; it terminates because a
  replacement that changes the string shortens it. \<open>strings.Map\<close> is \<open>map\<close> on an ASCII
  string, so \<open>dirToDBName\<close> is the function of the code on ASCII directory names.
\<close>

definition underscoreRune :: "char \<Rightarrow> char" where
  "underscoreRune r = (if isSpace r \<or> r = CHR ''-'' then CHR ''_'' else r)"

function collapse :: "string \<Rightarrow> string \<Rightarrow> string" where
  "collapse dbName newDBName =
     (if dbName \<noteq> newDBName then collapse newDBName (ReplaceAll_uu newDBName) else dbName)"
  by pat_completeness auto
termination
  apply (relation "measure (\<lambda>(d, n). length n + (if d \<noteq> n then 1 else 0))")
   apply simp
  using ReplaceAll_uu_shorter apply auto
  done

declare collapse.simps [simp del]

definition dirToDBName :: "string \<Rightarrow> string" where
  "dirToDBName dirName =
     (let dbName = TrimSpace dirName;
          dbName = map underscoreRune dbName
      in collapse dbName (ReplaceAll_uu dbName))"

text \<open>
  The sanitization as the specification words it, for comparison with the code: every white
  space character and every hyphen becomes an underscore, and every run of underscores
  becomes a single one (\<open>squeeze\<close> drops an underscore that another one follows).
\<close>

fun squeeze :: "string \<Rightarrow> string" where
  "squeeze (a # b # s) =
     (if a = CHR ''_'' \<and> b = CHR ''_'' then squeeze (b # s) else a # squeeze (b # s))"
| "squeeze s = s"

definition sanitize_spec :: "string \<Rightarrow> string" where
  "sanitize_spec x = squeeze (map underscoreRune x)"

fun no_double_underscore :: "string \<Rightarrow> bool" where
  "no_double_underscore (a # b # s) =
     (\<not> (a = CHR ''_'' \<and> b = CHR ''_'') \<and> no_double_underscore (b # s))"
| "no_double_underscore s = True"

lemma collapse_same: "collapse s s = s"
  by (subst collapse.simps) simp

lemma squeeze_Cons: "\<exists>t. squeeze (b # s) = b # t"
  by (induction s arbitrary: b) auto

lemma squeeze_Cons_ReplaceAll_uu: "squeeze (c # ReplaceAll_uu s) = squeeze (c # s)"
  by (induction s arbitrary: c rule: ReplaceAll_uu.induct) auto

lemma squeeze_ReplaceAll_uu: "squeeze (ReplaceAll_uu s) = squeeze s"
proof (cases s rule: ReplaceAll_uu.cases)
  case (1 a b t)
  then show ?thesis by (auto simp: squeeze_Cons_ReplaceAll_uu)
qed auto

lemma ReplaceAll_uu_fixed: "ReplaceAll_uu s = s \<Longrightarrow> squeeze s = s"
proof (induction s rule: ReplaceAll_uu.induct)
  case (1 a b s)
  then show ?case using ReplaceAll_uu_length [of s]
    by (auto split: if_splits)
qed auto

text \<open>The loop computes the one-pass collapse of the runs of underscores.\<close>

lemma collapse_squeeze: "collapse s (ReplaceAll_uu s) = squeeze s"
proof (induction "length s" arbitrary: s rule: less_induct)
  case less
  show ?case
  proof (cases "ReplaceAll_uu s = s")
    case True
    then show ?thesis using ReplaceAll_uu_fixed by (simp add: collapse_same)
  next
    case False
    then have "length (ReplaceAll_uu s) < length s"
      by (rule ReplaceAll_uu_shorter)
    then have "collapse (ReplaceAll_uu s) (ReplaceAll_uu (ReplaceAll_uu s)) =
        squeeze (ReplaceAll_uu s)"
      by (rule less)
    with False show ?thesis
      by (subst collapse.simps) (simp add: squeeze_ReplaceAll_uu)
  qed
qed

lemma squeeze_idem: "squeeze (squeeze s) = squeeze s"
proof (induction s rule: squeeze.induct)
  case (1 a b s)
  obtain t where t: "squeeze (b # s) = b # t"
    using squeeze_Cons by blast
  show ?case
  proof (cases "a = CHR ''_'' \<and> b = CHR ''_''")
    case True
    then show ?thesis using 1(1) [OF True] by simp
  next
    case False
    then have e: "squeeze (a # b # s) = a # squeeze (b # s)"
      by auto
    have "squeeze (a # squeeze (b # s)) = a # squeeze (b # t)"
      using False by (auto simp: t)
    also have "squeeze (b # t) = squeeze (b # s)"
      using 1(2) [OF False] t by simp
    finally show ?thesis unfolding e .
  qed
qed auto

lemma set_squeeze: "set (squeeze s) \<subseteq> set s"
  by (induction s rule: squeeze.induct) auto

lemma squeeze_no_double: "no_double_underscore (squeeze s)"
proof (induction s rule: squeeze.induct)
  case (1 a b s)
  obtain t where t: "squeeze (b # s) = b # t"
    using squeeze_Cons by blast
  with 1 show ?case by auto
qed auto

lemma underscoreRune_plain:
  "\<not> isSpace (underscoreRune r) \<and> underscoreRune r \<noteq> CHR ''-''"
  by (simp add: underscoreRune_def isSpace_def)

lemma TrimSpace_no_space: "\<forall>c \<in> set s. \<not> isSpace c \<Longrightarrow> TrimSpace s = s"
proof -
  have d: "dropWhile isSpace t = t" if "\<forall>c \<in> set t. \<not> isSpace c" for t
    using that by (cases t) auto
  assume a: "\<forall>c \<in> set s. \<not> isSpace c"
  then have "dropWhile isSpace (rev s) = rev s"
    by (simp add: d)
  then show ?thesis using a by (simp add: TrimSpace_def d)
qed

lemma dirToDBName_spec: "dirToDBName x = sanitize_spec (TrimSpace x)"
  by (simp add: dirToDBName_def sanitize_spec_def collapse_squeeze)

lemma sanitize_spec_plain:
  "c \<in> set (sanitize_spec x) \<Longrightarrow> \<not> isSpace c \<and> c \<noteq> CHR ''-''"
proof -
  assume "c \<in> set (sanitize_spec x)"
  then have "c \<in> set (map underscoreRune x)"
    using set_squeeze [of "map underscoreRune x"] by (auto simp: sanitize_spec_def)
  then obtain r where "c = underscoreRune r"
    by auto
  then show ?thesis using underscoreRune_plain by simp
qed

lemma map_underscoreRune_plain:
  "\<forall>c \<in> set s. \<not> isSpace c \<and> c \<noteq> CHR ''-'' \<Longrightarrow> map underscoreRune s = s"
  by (induction s) (auto simp: underscoreRune_def)

lemma sanitize_spec_idem: "sanitize_spec (TrimSpace (sanitize_spec x)) = sanitize_spec x"
proof -
  have p: "\<forall>c \<in> set (sanitize_spec x). \<not> isSpace c \<and> c \<noteq> CHR ''-''"
    using sanitize_spec_plain by blast
  then have "TrimSpace (sanitize_spec x) = sanitize_spec x"
    by (simp add: TrimSpace_no_space)
  moreover have "map underscoreRune (sanitize_spec x) = sanitize_spec x"
    using p by (rule map_underscoreRune_plain)
  ultimately show ?thesis
    by (simp add: sanitize_spec_def squeeze_idem)
qed

lemma dirToDBName_no_double: "no_double_underscore (dirToDBName x)"
  by (simp add: dirToDBName_spec sanitize_spec_def squeeze_no_double)

text \<open>
  Claim C9, as stated: the sanitization maps every white space character and every hyphen to
  an underscore and collapses every run of underscores, and it is idempotent. The code first
  trims the name, so leading and trailing white space is removed and leaves no underscore:
  the directory name \<open>" a"\<close> becomes \<open>"a"\<close>, where the sanitization as stated gives
  \<open>"_a"\<close>.
\<close>

theorem dirToDBName_leading_space_counterexample:
  "dirToDBName '' a'' = ''a'' \<and> sanitize_spec '' a'' = ''_a''"
  by (simp add: dirToDBName_def sanitize_spec_def TrimSpace_def isSpace_def
      underscoreRune_def collapse_same)

text \<open>
  What \<open>strings.TrimSpace\<close> removes: a name is white space, then the trimmed name, then
  white space, and the trimmed name neither starts nor ends with white space.
\<close>

lemma last_dropWhile: "dropWhile P xs \<noteq> [] \<Longrightarrow> last (dropWhile P xs) = last xs"
  by (induction xs) (auto split: if_splits)

lemma TrimSpace_split:
  "\<exists>pre post. x = pre @ TrimSpace x @ post \<and> list_all isSpace pre \<and> list_all isSpace post"
proof -
  let ?rest = "dropWhile isSpace x"
  have "x = takeWhile isSpace x @ ?rest"
    by simp
  moreover have "?rest = TrimSpace x @ rev (takeWhile isSpace (rev ?rest))"
  proof -
    have "rev ?rest = takeWhile isSpace (rev ?rest) @ dropWhile isSpace (rev ?rest)"
      by simp
    then have "rev (rev ?rest) =
        rev (dropWhile isSpace (rev ?rest)) @ rev (takeWhile isSpace (rev ?rest))"
      by (metis rev_append)
    then show ?thesis
      by (simp add: TrimSpace_def)
  qed
  moreover have "list_all isSpace (takeWhile isSpace x)"
    "list_all isSpace (rev (takeWhile isSpace (rev ?rest)))"
    by (auto simp: list_all_iff dest: set_takeWhileD)
  ultimately show ?thesis
    by metis
qed

lemma TrimSpace_ends:
  "TrimSpace x \<noteq> [] \<Longrightarrow> \<not> isSpace (hd (TrimSpace x)) \<and> \<not> isSpace (last (TrimSpace x))"
proof -
  let ?rest = "dropWhile isSpace x"
  let ?d = "dropWhile isSpace (rev ?rest)"
  assume "TrimSpace x \<noteq> []"
  then have d: "?d \<noteq> []"
    by (simp add: TrimSpace_def)
  have rest: "?rest \<noteq> []"
  proof
    assume "?rest = []"
    then have "?d = []"
      by (simp only: rev.simps dropWhile.simps)
    with d show False ..
  qed
  have "last (TrimSpace x) = hd ?d"
    using d by (simp add: TrimSpace_def last_rev)
  moreover have "\<not> isSpace (hd ?d)"
    using d hd_dropWhile by blast
  moreover have "hd (TrimSpace x) = last ?d"
    using d by (simp add: TrimSpace_def hd_rev)
  moreover have "last ?d = last (rev ?rest)"
    using d by (rule last_dropWhile)
  moreover have "last (rev ?rest) = hd ?rest"
    using rest by (simp add: last_rev)
  moreover have "\<not> isSpace (hd ?rest)"
    using rest hd_dropWhile by blast
  ultimately show ?thesis
    by simp
qed

lemma dirToDBName_plain:
  "list_all (\<lambda>c. \<not> isSpace c \<and> c \<noteq> CHR ''-'') (dirToDBName x)"
  using sanitize_spec_plain [of _ "TrimSpace x"]
  by (auto simp: list_all_iff dirToDBName_spec)

text \<open>
  Claim C9, amended: for every ASCII directory name, \<open>dirToDBName\<close> removes the leading
  and the trailing white space, maps every white space character and every hyphen of what
  is left to an underscore and collapses every run of underscores to a single underscore,
  so that the result has no white space, no hyphen and no two underscores in a row; and it
  is idempotent.
\<close>

theorem dirToDBName_sanitize_idempotent:
  assumes "isASCII x"
  shows "(\<exists>pre mid post. x = pre @ mid @ post
            \<and> list_all isSpace pre \<and> list_all isSpace post
            \<and> (mid = [] \<or> \<not> isSpace (hd mid) \<and> \<not> isSpace (last mid))
            \<and> dirToDBName x =
                squeeze (map (\<lambda>c. if isSpace c \<or> c = CHR ''-'' then CHR ''_'' else c) mid))
       \<and> list_all (\<lambda>c. \<not> isSpace c \<and> c \<noteq> CHR ''-'') (dirToDBName x)
       \<and> no_double_underscore (dirToDBName x)
       \<and> dirToDBName (dirToDBName x) = dirToDBName x"
proof -
  obtain pre post where split: "x = pre @ TrimSpace x @ post" "list_all isSpace pre"
    "list_all isSpace post"
    using TrimSpace_split by blast
  have ends: "TrimSpace x = [] \<or>
      \<not> isSpace (hd (TrimSpace x)) \<and> \<not> isSpace (last (TrimSpace x))"
    using TrimSpace_ends by blast
  have "underscoreRune = (\<lambda>c. if isSpace c \<or> c = CHR ''-'' then CHR ''_'' else c)"
    by (simp add: fun_eq_iff underscoreRune_def)
  then have "dirToDBName x =
      squeeze (map (\<lambda>c. if isSpace c \<or> c = CHR ''-'' then CHR ''_'' else c) (TrimSpace x))"
    by (simp add: dirToDBName_spec sanitize_spec_def)
  with split ends have first: "\<exists>pre mid post. x = pre @ mid @ post
            \<and> list_all isSpace pre \<and> list_all isSpace post
            \<and> (mid = [] \<or> \<not> isSpace (hd mid) \<and> \<not> isSpace (last mid))
            \<and> dirToDBName x =
                squeeze (map (\<lambda>c. if isSpace c \<or> c = CHR ''-'' then CHR ''_'' else c) mid)"
    by blast
  have "dirToDBName (dirToDBName x) = dirToDBName x"
    by (simp add: dirToDBName_spec sanitize_spec_idem)
  with first show ?thesis
    by (simp add: dirToDBName_plain dirToDBName_no_double)
qed

theorem dirToDBName_sanitize_idempotent_witness:
  "isASCII '' my-db  _name '' \<and> dirToDBName '' my-db  _name '' = ''my_db_name''
   \<and> dirToDBName ''my_db_name'' = ''my_db_name''"
proof -
  have a: "isASCII '' my-db  _name ''"
    by (simp add: isASCII_def)
  have b: "dirToDBName '' my-db  _name '' = ''my_db_name''"
    by (simp add: dirToDBName_spec sanitize_spec_def TrimSpace_def isSpace_def underscoreRune_def)
  from dirToDBName_sanitize_idempotent [OF a]
  have "dirToDBName (dirToDBName '' my-db  _name '') = dirToDBName '' my-db  _name ''"
    by blast
  with a b show ?thesis by simp
qed

section \<open>Environments of one storage format\<close>

text \<open>
  What the loader reads of a \<open>DoltEnv\<close>: the file system it was loaded from (\<open>dEnv.FS\<close>, by
  its root directory), the version string of its storage format
  (\<open>dEnv.DoltDB.Format().VersionString()\<close>) and whether it is valid (\<open>dEnv.Valid()\<close>).
  A Go map from names to environments is an association list with distinct names; the order
  of the list stands for the order in which a \<open>range\<close> loop visits the map, which Go leaves
  unspecified.
  \<^verbatim>\<open>
  func enforceSingleFormat(envSet map[string]*DoltEnv) {
      formats := set.NewEmptyStrSet()
      for _, dEnv := range envSet {
          formats.Add(dEnv.DoltDB.Format().VersionString())
      }
      var nbf string
      // if present, prefer types.Format_Default
      if ok := formats.Contains(types.Format_Default.VersionString()); ok {
          nbf = types.Format_Default.VersionString()
      } else {
          // otherwise, pick an arbitrary format
          for _, dEnv := range envSet {
              nbf = dEnv.DoltDB.Format().VersionString()
          }
      }
      for name, dEnv := range envSet {
          found := dEnv.DoltDB.Format().VersionString()
          if found != nbf { delete(envSet, name) }
      }
  }
  \<close>
  The process-wide \<open>types.Format_Default\<close> is the first argument.
\<close>

record DoltEnv =
  FS :: string
  Format :: string
  Valid :: bool

type_synonym NamedEnv = "string \<times> DoltEnv"

definition enforceSingleFormat :: "string \<Rightarrow> NamedEnv list \<Rightarrow> NamedEnv list" where
  "enforceSingleFormat Format_Default envSet =
     (let formats = set (map (\<lambda>(name, dEnv). Format dEnv) envSet);
          nbf = (if Format_Default \<in> formats then Format_Default
                 else fold (\<lambda>(name, dEnv) nbf. Format dEnv) envSet [])
      in filter (\<lambda>(name, dEnv). \<not> Format dEnv \<noteq> nbf) envSet)"

lemma fold_last_format:
  "envSet \<noteq> [] \<Longrightarrow> fold (\<lambda>(name, dEnv) nbf. Format dEnv) envSet z = Format (snd (last envSet))"
  by (induction envSet arbitrary: z) (auto split: prod.splits)

lemma enforceSingleFormat_default:
  "FD \<in> set (map (\<lambda>x. Format (snd x)) envSet) \<Longrightarrow>
   enforceSingleFormat FD envSet = filter (\<lambda>x. Format (snd x) = FD) envSet"
  by (simp add: enforceSingleFormat_def case_prod_unfold)

lemma enforceSingleFormat_arbitrary:
  "FD \<notin> set (map (\<lambda>x. Format (snd x)) envSet) \<Longrightarrow> envSet \<noteq> [] \<Longrightarrow>
   enforceSingleFormat FD envSet =
     filter (\<lambda>x. Format (snd x) = Format (snd (last envSet))) envSet"
  using fold_last_format [of envSet "[]"]
  by (simp add: enforceSingleFormat_def case_prod_unfold)

lemma enforceSingleFormat_same:
  assumes "\<forall>x \<in> set envSet. \<forall>y \<in> set envSet. Format (snd x) = Format (snd y)"
  shows "enforceSingleFormat FD envSet = envSet"
proof (cases "envSet = []")
  case True
  then show ?thesis by (simp add: enforceSingleFormat_def)
next
  case False
  then have l: "last envSet \<in> set envSet" by simp
  show ?thesis
  proof (cases "FD \<in> set (map (\<lambda>x. Format (snd x)) envSet)")
    case True
    then obtain z where "z \<in> set envSet" "Format (snd z) = FD" by auto
    with assms have "\<forall>x \<in> set envSet. Format (snd x) = FD"
      by metis
    then have "filter (\<lambda>x. Format (snd x) = FD) envSet = envSet"
      by (rule filter_True)
    then show ?thesis
      using enforceSingleFormat_default [OF True] by simp
  next
    case no: False
    from assms l have "\<forall>x \<in> set envSet. Format (snd x) = Format (snd (last envSet))"
      by blast
    then have "filter (\<lambda>x. Format (snd x) = Format (snd (last envSet))) envSet = envSet"
      by (rule filter_True)
    then show ?thesis
      using enforceSingleFormat_arbitrary [OF no False] by simp
  qed
qed

lemma enforceSingleFormat_one_format:
  assumes "x \<in> set (enforceSingleFormat FD envSet)" "y \<in> set (enforceSingleFormat FD envSet)"
  shows "Format (snd x) = Format (snd y)"
  using assms by (auto simp: enforceSingleFormat_def Let_def split: if_splits)

text \<open>
  Claim C7: for every set of loaded environments, \<open>enforceSingleFormat\<close> leaves a set of one
  format. If some environment uses the default format, exactly the environments of the
  default format remain; if none does, exactly the environments of one format \<open>f\<close> remain,
  where \<open>f\<close> is a format of the set (when the set is not empty); and when all environments
  share one format, default or not, all of them remain. So of formats \<open>{A, A, B}\<close> with
  default \<open>A\<close> the two \<open>A\<close> environments remain, and of \<open>{B, B, B}\<close> all three.
\<close>

theorem enforceSingleFormat_homogeneous:
  "(\<forall>x \<in> set (enforceSingleFormat FD envSet). \<forall>y \<in> set (enforceSingleFormat FD envSet).
        Format (snd x) = Format (snd y))
   \<and> (FD \<in> set (map (\<lambda>x. Format (snd x)) envSet) \<longrightarrow>
        enforceSingleFormat FD envSet = filter (\<lambda>x. Format (snd x) = FD) envSet)
   \<and> (FD \<notin> set (map (\<lambda>x. Format (snd x)) envSet) \<longrightarrow>
        (\<exists>f. (envSet \<noteq> [] \<longrightarrow> f \<in> set (map (\<lambda>x. Format (snd x)) envSet)) \<and>
          enforceSingleFormat FD envSet = filter (\<lambda>x. Format (snd x) = f) envSet))
   \<and> ((\<forall>x \<in> set envSet. \<forall>y \<in> set envSet. Format (snd x) = Format (snd y)) \<longrightarrow>
        enforceSingleFormat FD envSet = envSet)"
proof (intro conjI impI)
  show "\<forall>x \<in> set (enforceSingleFormat FD envSet). \<forall>y \<in> set (enforceSingleFormat FD envSet).
        Format (snd x) = Format (snd y)"
    using enforceSingleFormat_one_format by blast
next
  assume "FD \<in> set (map (\<lambda>x. Format (snd x)) envSet)"
  then show "enforceSingleFormat FD envSet = filter (\<lambda>x. Format (snd x) = FD) envSet"
    by (rule enforceSingleFormat_default)
next
  assume no: "FD \<notin> set (map (\<lambda>x. Format (snd x)) envSet)"
  show "\<exists>f. (envSet \<noteq> [] \<longrightarrow> f \<in> set (map (\<lambda>x. Format (snd x)) envSet)) \<and>
          enforceSingleFormat FD envSet = filter (\<lambda>x. Format (snd x) = f) envSet"
  proof (cases "envSet = []")
    case True
    then show ?thesis by (simp add: enforceSingleFormat_def)
  next
    case False
    then have "Format (snd (last envSet)) \<in> set (map (\<lambda>x. Format (snd x)) envSet)"
      by simp
    then show ?thesis
      using enforceSingleFormat_arbitrary [OF no False] by blast
  qed
next
  assume "\<forall>x \<in> set envSet. \<forall>y \<in> set envSet. Format (snd x) = Format (snd y)"
  then show "enforceSingleFormat FD envSet = envSet"
    by (rule enforceSingleFormat_same)
qed

theorem enforceSingleFormat_homogeneous_witness:
  "enforceSingleFormat ''A''
      [(''x'', \<lparr>FS = ''/d/x'', Format = ''A'', Valid = True\<rparr>),
       (''y'', \<lparr>FS = ''/d/y'', Format = ''B'', Valid = True\<rparr>),
       (''z'', \<lparr>FS = ''/d/z'', Format = ''A'', Valid = True\<rparr>)]
     = [(''x'', \<lparr>FS = ''/d/x'', Format = ''A'', Valid = True\<rparr>),
        (''z'', \<lparr>FS = ''/d/z'', Format = ''A'', Valid = True\<rparr>)]
   \<and> enforceSingleFormat ''A''
      [(''x'', \<lparr>FS = ''/d/x'', Format = ''B'', Valid = True\<rparr>),
       (''y'', \<lparr>FS = ''/d/y'', Format = ''B'', Valid = True\<rparr>),
       (''z'', \<lparr>FS = ''/d/z'', Format = ''B'', Valid = True\<rparr>)]
     = [(''x'', \<lparr>FS = ''/d/x'', Format = ''B'', Valid = True\<rparr>),
        (''y'', \<lparr>FS = ''/d/y'', Format = ''B'', Valid = True\<rparr>),
        (''z'', \<lparr>FS = ''/d/z'', Format = ''B'', Valid = True\<rparr>)]"
proof -
  let ?aab = "[(''x'', \<lparr>FS = ''/d/x'', Format = ''A'', Valid = True\<rparr>),
       (''y'', \<lparr>FS = ''/d/y'', Format = ''B'', Valid = True\<rparr>),
       (''z'', \<lparr>FS = ''/d/z'', Format = ''A'', Valid = True\<rparr>)]"
  let ?bbb = "[(''x'', \<lparr>FS = ''/d/x'', Format = ''B'', Valid = True\<rparr>),
       (''y'', \<lparr>FS = ''/d/y'', Format = ''B'', Valid = True\<rparr>),
       (''z'', \<lparr>FS = ''/d/z'', Format = ''B'', Valid = True\<rparr>)]"
  have a: "''A'' \<in> set (map (\<lambda>x. Format (snd x)) ?aab)"
    by simp
  have b: "\<forall>x \<in> set ?bbb. \<forall>y \<in> set ?bbb. Format (snd x) = Format (snd y)"
    by simp
  have "enforceSingleFormat ''A'' ?aab = filter (\<lambda>x. Format (snd x) = ''A'') ?aab"
    using enforceSingleFormat_homogeneous [of "''A''" ?aab] a by blast
  moreover have "enforceSingleFormat ''A'' ?bbb = ?bbb"
    using enforceSingleFormat_homogeneous [of "''A''" ?bbb] b by blast
  ultimately show ?thesis by simp
qed

section \<open>Loading the environments of a directory\<close>

text \<open>The names of the hidden metadata directory and of its data directory
  (\<open>dbfactory.DoltDir\<close>, \<open>dbfactory.DataDir\<close>).\<close>

definition DoltDir :: string where "DoltDir = ''.dolt''"
definition DataDir :: string where "DataDir = ''noms''"

text \<open>\<open>strings.Split(path, "/")\<close>: the pieces between the separators, one more than there
  are separators.\<close>

fun Split :: "string \<Rightarrow> string list" where
  "Split [] = [[]]"
| "Split (c # s) =
     (if c = CHR ''/'' then [] # Split s
      else (case Split s of [] \<Rightarrow> [[c]] | t # ts \<Rightarrow> (c # t) # ts))"

definition getRepoRootDir :: "string \<Rightarrow> char \<Rightarrow> error + string" where
  "getRepoRootDir path pathSeparator =
     (let path = (if pathSeparator \<noteq> CHR ''/''
                  then map (\<lambda>c. if c = pathSeparator then CHR ''/'' else c) path else path);
          tokens = filter (\<lambda>t. t \<noteq> []) (Split path)
      in if length tokens = 0 then Inr []
         else if last tokens = DataDir \<and> length tokens < 2
           then Inl (Panic ''index out of range [-1]'')
         else
           let tokens = (if last tokens = DataDir \<and> tokens ! (length tokens - 2) = DoltDir
                         then take (length tokens - 2) tokens else tokens)
           in if length tokens = 0 then Inr []
              else let name = last tokens
                   in if CHR '':'' \<in> set name then Inr [] else Inr name)"

text \<open>\<open>filepath.Base\<close>: the last element of a path, trailing separators removed first;
  \<open>"."\<close> for the empty path and \<open>"/"\<close> for a path of separators only.\<close>

definition Base :: "string \<Rightarrow> string" where
  "Base path =
     (if path = [] then ''.''
      else let p = rev (dropWhile (\<lambda>c. c = CHR ''/'') (rev path))
           in if p = [] then ''/'' else rev (takeWhile (\<lambda>c. c \<noteq> CHR ''/'') (rev p)))"

text \<open>
  What \<open>MultiEnvForDirectory\<close> reads of its arguments and of the world: whether the data
  directory is an in-memory file system; \<open>dataDirFS.Abs("")\<close>; \<open>os.PathSeparator\<close>; the
  environment \<open>Load\<close> returns for the data directory itself; the entries
  \<open>dataDirFS.Iter(".", false, ...)\<close> passes to its callback, each a path and whether it is a
  directory; \<open>dataDirFS.WithWorkingDir\<close>; and the environment \<open>Load\<close> returns for a
  sub-directory's file system. \<open>rangeOrder\<close> is the order in which \<open>enforceSingleFormat\<close>
  happens to visit the map. The result is the list \<open>mrEnv.envs\<close>.
\<close>

record DirScan =
  Format_Default :: string
  rangeOrder :: "NamedEnv list \<Rightarrow> NamedEnv list"
  dataDirFS_isInMemFS :: bool
  dataDirFS_Abs :: "error + string"
  PathSeparator :: char
  Load_dataDirFS :: DoltEnv
  dataDirFS_Iter :: "(string \<times> bool) list"
  dataDirFS_WithWorkingDir :: "string \<Rightarrow> error + string"
  Load_newFs :: "string \<Rightarrow> DoltEnv"

definition loadSubdirectory :: "DirScan \<Rightarrow> string \<times> bool \<Rightarrow> NamedEnv list \<Rightarrow> NamedEnv list" where
  "loadSubdirectory sc = (\<lambda>(path, isDir) envSet.
     if \<not> isDir then envSet
     else let dir = Base path in
       (case dataDirFS_WithWorkingDir sc dir of
          Inl err \<Rightarrow> envSet
        | Inr newFs \<Rightarrow>
            let newEnv = Load_newFs sc newFs
            in if Valid newEnv then AList.update (dirToDBName dir) newEnv envSet else envSet))"

definition addSorted :: "NamedEnv list \<Rightarrow> NamedEnv list" where
  "addSorted envSet =
     (let sortedKeys = sort (map fst envSet)
      in List.map_filter (\<lambda>dbName. map_option (Pair dbName) (map_of envSet dbName)) sortedKeys)"

definition assemble :: "string \<Rightarrow> DoltEnv option \<Rightarrow> DirScan \<Rightarrow> NamedEnv list" where
  "assemble dbName newDEnv sc =
     (let envSet = (case newDEnv of
                      Some e \<Rightarrow> if Valid e then [(dbName, e)] else []
                    | None \<Rightarrow> []);
          envSet = fold (loadSubdirectory sc) (dataDirFS_Iter sc) envSet;
          envSet = enforceSingleFormat (Format_Default sc) (rangeOrder sc envSet)
      in (case map_of envSet dbName of
            Some env \<Rightarrow>
              if Valid env then (dbName, env) # addSorted (AList.delete dbName envSet)
              else addSorted envSet
          | None \<Rightarrow> addSorted envSet))"

definition MultiEnvForDirectory :: "DirScan \<Rightarrow> DoltEnv option \<Rightarrow> error + NamedEnv list" where
  "MultiEnvForDirectory sc dEnv =
     (if \<not> dataDirFS_isInMemFS sc then
        (case dataDirFS_Abs sc of
           Inl err \<Rightarrow> Inl err
         | Inr path \<Rightarrow>
            (case getRepoRootDir path (PathSeparator sc) of
               Inl err \<Rightarrow> Inl err
             | Inr envName \<Rightarrow> Inr (assemble (dirToDBName envName) (Some (Load_dataDirFS sc)) sc)))
      else Inr (assemble ''dolt'' dEnv sc))"


text \<open>
  What holds of the order on every scan: after the first entry the names are in ascending
  order of their bytes (\<open>sort.Strings\<close>), so capital letters sort before small ones.
\<close>

lemma map_fst_addSorted: "map fst (addSorted envSet) = sort (map fst envSet)"
proof -
  have "map fst (List.map_filter (\<lambda>k. map_option (Pair k) (map_of envSet k)) ks) = ks"
    if "set ks \<subseteq> fst ` set envSet" for ks
    using that
  proof (induction ks)
    case Nil
    then show ?case by (simp add: List.map_filter_simps)
  next
    case (Cons k ks)
    then obtain v where "map_of envSet k = Some v"
      by (cases "map_of envSet k") (auto simp: map_of_eq_None_iff)
    with Cons show ?case by (simp add: List.map_filter_simps)
  qed
  then show ?thesis by (simp add: addSorted_def)
qed

lemma assemble_tl_sorted: "sorted (map fst (tl (assemble dbName newDEnv sc)))"
  by (auto simp: assemble_def Let_def map_fst_addSorted sorted_tl map_tl split: option.splits)

lemma MultiEnvForDirectory_rest_sorted:
  "MultiEnvForDirectory sc dEnv = Inr envs \<Longrightarrow> sorted (map fst (tl envs))"
  by (auto simp: MultiEnvForDirectory_def assemble_tl_sorted split: if_splits sum.splits)

lemma map_of_loadSubdirectory:
  "(isDir \<Longrightarrow> dirToDBName (Base path) \<noteq> dbName) \<Longrightarrow>
   map_of (loadSubdirectory sc (path, isDir) envSet) dbName = map_of envSet dbName"
  by (auto simp: loadSubdirectory_def Let_def update_conv' split: sum.splits)

lemma map_of_fold_loadSubdirectory:
  "\<forall>(path, isDir) \<in> set entries. isDir \<longrightarrow> dirToDBName (Base path) \<noteq> dbName \<Longrightarrow>
   map_of (fold (loadSubdirectory sc) entries envSet) dbName = map_of envSet dbName"
proof (induction entries arbitrary: envSet)
  case Nil
  then show ?case by simp
next
  case (Cons e entries)
  obtain path isDir where e: "e = (path, isDir)" by (cases e)
  from Cons.prems have "map_of (fold (loadSubdirectory sc) entries (loadSubdirectory sc e envSet)) dbName
      = map_of (loadSubdirectory sc e envSet) dbName"
    by (intro Cons.IH) simp
  also have "\<dots> = map_of envSet dbName"
    using Cons.prems unfolding e by (intro map_of_loadSubdirectory) simp
  finally show ?case by simp
qed

lemma distinct_loadSubdirectory:
  "distinct (map fst envSet) \<Longrightarrow> distinct (map fst (loadSubdirectory sc e envSet))"
  by (cases e) (auto simp: loadSubdirectory_def Let_def distinct_update split: sum.splits)

lemma distinct_fold_loadSubdirectory:
  "distinct (map fst envSet) \<Longrightarrow> distinct (map fst (fold (loadSubdirectory sc) entries envSet))"
  by (induction entries arbitrary: envSet) (auto simp: distinct_loadSubdirectory)

lemma assemble_cwd_first:
  assumes valid: "Valid e"
    and no_clash: "\<forall>(path, isDir) \<in> set (dataDirFS_Iter sc). isDir \<longrightarrow> dirToDBName (Base path) \<noteq> dbName"
    and perm: "\<And>l. mset (rangeOrder sc l) = mset l"
    and fmt: "Format e = Format_Default sc"
  shows "hd (assemble dbName (Some e) sc) = (dbName, e)"
proof -
  let ?envSet1 = "fold (loadSubdirectory sc) (dataDirFS_Iter sc) [(dbName, e)]"
  let ?envSet2 = "rangeOrder sc ?envSet1"
  have m1: "map_of ?envSet1 dbName = Some e"
    using map_of_fold_loadSubdirectory [OF no_clash, of sc "[(dbName, e)]"] by simp
  have d1: "distinct (map fst ?envSet1)"
    by (rule distinct_fold_loadSubdirectory) simp
  have s2: "set ?envSet2 = set ?envSet1"
    using perm by (metis mset_eq_setD)
  have "mset (map fst ?envSet2) = mset (map fst ?envSet1)"
    using perm by (metis mset_map)
  then have d2: "distinct (map fst ?envSet2)"
    using d1 by (metis mset_eq_imp_distinct_iff)
  have m2: "map_of ?envSet2 dbName = Some e"
    using m1 d1 d2 s2 by (metis map_of_inject_set)
  then have mem: "(dbName, e) \<in> set ?envSet2"
    by (rule map_of_SomeD)
  then have "Format_Default sc \<in> set (map (\<lambda>x. Format (snd x)) ?envSet2)"
    using fmt by force
  then have en: "enforceSingleFormat (Format_Default sc) ?envSet2 =
      filter (\<lambda>(k, v). Format v = Format_Default sc) ?envSet2"
    by (simp add: enforceSingleFormat_default case_prod_unfold)
  have "map_of (enforceSingleFormat (Format_Default sc) ?envSet2) dbName = Some e"
    unfolding en using m2 fmt by (intro map_of_filter_in) auto
  then show ?thesis using valid
    by (simp add: assemble_def Let_def)
qed


lemma MultiEnvForDirectory_cwd_first:
  assumes "\<not> dataDirFS_isInMemFS sc" "dataDirFS_Abs sc = Inr path"
    and "getRepoRootDir path (PathSeparator sc) = Inr envName"
    and "Valid (Load_dataDirFS sc)"
    and "\<forall>(path, isDir) \<in> set (dataDirFS_Iter sc).
           isDir \<longrightarrow> dirToDBName (Base path) \<noteq> dirToDBName envName"
    and "\<And>l. mset (rangeOrder sc l) = mset l"
    and "Format (Load_dataDirFS sc) = Format_Default sc"
  shows "\<exists>envs. MultiEnvForDirectory sc dEnv = Inr envs \<and>
           hd envs = (dirToDBName envName, Load_dataDirFS sc)"
  using assms assemble_cwd_first [of "Load_dataDirFS sc" sc "dirToDBName envName"]
  by (simp add: MultiEnvForDirectory_def)

text \<open>
  A data directory \<open>root\<close> that is itself a valid database of the default format \<open>A\<close>,
  with the sub-directories \<open>foo\<close> (a valid database of format \<open>B\<close>), \<open>bar\<close> and \<open>Zed\<close>
  (valid databases of format \<open>A\<close>) and a file.
\<close>

definition scan_at :: "string \<Rightarrow> DirScan" where
  "scan_at root = \<lparr>Format_Default = ''A'', rangeOrder = (\<lambda>l. l), dataDirFS_isInMemFS = False,
     dataDirFS_Abs = Inr root, PathSeparator = CHR ''/'',
     Load_dataDirFS = \<lparr>FS = root, Format = ''A'', Valid = True\<rparr>,
     dataDirFS_Iter = [(root @ ''/foo'', True), (root @ ''/bar'', True),
             (root @ ''/README'', False), (root @ ''/Zed'', True)],
     dataDirFS_WithWorkingDir = (\<lambda>d. Inr (root @ ''/'' @ d)),
     Load_newFs = (\<lambda>d. if d = root @ ''/foo'' then \<lparr>FS = d, Format = ''B'', Valid = True\<rparr>
                    else \<lparr>FS = d, Format = ''A'', Valid = True\<rparr>)\<rparr>"

text \<open>
  Claim C8: on every scan by \<open>MultiEnvForDirectory\<close>, the environment of the current working
  directory, if it loads as a valid environment and survives the enforcement of one format,
  is first in the list, and the other environments follow in ascending order of their names.
  The function's own comment promises the same of the invoking environment. On the scan of
  \<open>/data/foo\<close> the environment of the working directory is valid and has the default
  format, which the enforcement keeps; but the sub-directory \<open>foo\<close> is stored in the map
  under the name the working directory already has and replaces its entry, and is then
  removed for its format. The list holds the two other sub-directories only: the
  environment of the working directory is not in it.
\<close>

theorem MultiEnvForDirectory_name_collision:
  "MultiEnvForDirectory (scan_at ''/data/foo'') None =
     Inr [(''Zed'', \<lparr>FS = ''/data/foo/Zed'', Format = ''A'', Valid = True\<rparr>),
          (''bar'', \<lparr>FS = ''/data/foo/bar'', Format = ''A'', Valid = True\<rparr>)]"
  by (simp add: MultiEnvForDirectory_def scan_at_def getRepoRootDir_def DataDir_def DoltDir_def
      assemble_def loadSubdirectory_def Base_def dirToDBName_def TrimSpace_def isSpace_def
      underscoreRune_def collapse_same enforceSingleFormat_def addSorted_def
      List.map_filter_simps Let_def)

text \<open>The same directory under the name \<open>/data/top\<close>: no sub-directory takes its name, and
  its environment is first.\<close>

lemma MultiEnvForDirectory_no_collision:
  "MultiEnvForDirectory (scan_at ''/data/top'') None =
     Inr [(''top'', \<lparr>FS = ''/data/top'', Format = ''A'', Valid = True\<rparr>),
          (''Zed'', \<lparr>FS = ''/data/top/Zed'', Format = ''A'', Valid = True\<rparr>),
          (''bar'', \<lparr>FS = ''/data/top/bar'', Format = ''A'', Valid = True\<rparr>)]"
  by (simp add: MultiEnvForDirectory_def scan_at_def getRepoRootDir_def DataDir_def DoltDir_def
      assemble_def loadSubdirectory_def Base_def dirToDBName_def TrimSpace_def isSpace_def
      underscoreRune_def collapse_same enforceSingleFormat_def addSorted_def
      List.map_filter_simps Let_def)

chapter \<open>The database provider\<close>

section \<open>Names of databases\<close>

text \<open>
  The revision delimiter \<open>dsess.DbRevisionDelimiter\<close> is the string \<open>"/"\<close>
  (\<open>allRevisionDbs\<close> formats a revision name as \<open>"%s/%s"\<close>). \<open>strings.Contains\<close> and
  \<open>strings.SplitN(s, "/", 2)\<close> are written for this one-character delimiter: the split is at
  the first delimiter. \<open>strings.ToLower\<close> is modelled on ASCII strings, where it changes
  the letters \<open>A\<close> to \<open>Z\<close> only; so \<open>ToLower\<close> and \<open>formatDbMapKeyName\<close> are the
  functions of the code on ASCII names.
  \<^verbatim>\<open>
  func formatDbMapKeyName(name string) string {
      if !strings.Contains(name, dsess.DbRevisionDelimiter) {
          return strings.ToLower(name)
      }
      parts := strings.SplitN(name, dsess.DbRevisionDelimiter, 2)
      dbName, revSpec := parts[0], parts[1]
      return strings.ToLower(dbName) + dsess.DbRevisionDelimiter + revSpec
  }
  \<close>
\<close>

definition DbRevisionDelimiter :: string where
  "DbRevisionDelimiter = ''/''"

definition toLower :: "char \<Rightarrow> char" where
  "toLower c =
     (case map_of (zip ''ABCDEFGHIJKLMNOPQRSTUVWXYZ'' ''abcdefghijklmnopqrstuvwxyz'') c of
        Some l \<Rightarrow> l | None \<Rightarrow> c)"

definition ToLower :: "string \<Rightarrow> string" where
  "ToLower s = map toLower s"

definition Contains_delimiter :: "string \<Rightarrow> bool" where
  "Contains_delimiter s = (CHR ''/'' \<in> set s)"

definition SplitN_2 :: "string \<Rightarrow> string \<times> string" where
  "SplitN_2 s =
     (takeWhile (\<lambda>c. c \<noteq> CHR ''/'') s, drop 1 (dropWhile (\<lambda>c. c \<noteq> CHR ''/'') s))"

definition formatDbMapKeyName :: "string \<Rightarrow> string" where
  "formatDbMapKeyName name =
     (if \<not> Contains_delimiter name then ToLower name
      else let (dbName, revSpec) = SplitN_2 name
           in ToLower dbName @ DbRevisionDelimiter @ revSpec)"

text \<open>The upper-case form of a name, which the specification uses to state that the base
  name is compared without regard to case: \<open>strings.ToUpper\<close> on ASCII strings, where it
  changes the letters \<open>a\<close> to \<open>z\<close> only.\<close>

definition toUpper :: "char \<Rightarrow> char" where
  "toUpper c =
     (case map_of (zip ''abcdefghijklmnopqrstuvwxyz'' ''ABCDEFGHIJKLMNOPQRSTUVWXYZ'') c of
        Some u \<Rightarrow> u | None \<Rightarrow> c)"

definition ToUpper :: "string \<Rightarrow> string" where
  "ToUpper s = map toUpper s"

section \<open>Databases\<close>

text \<open>
  The struct \<open>Database\<close> with the fields the provider reads or sets: its name, its storage
  (\<open>ddb\<close>, a handle), the branch its repository state is pinned to when \<open>rsr\<close> and \<open>rsw\<close>
  are a \<open>staticRepoState\<close> (\<open>None\<close> for the repository state of the source), its revision
  and the type of the revision. The fields \<open>gs\<close> and \<open>editOpts\<close> are copied and never read
  here, and are left out. The values of the interface \<open>dsess.SqlDatabase\<close> the provider
  holds and makes are of three struct types: \<open>Database\<close>, \<open>ReadOnlyDatabase\<close> (a
  \<open>Database\<close> embedded) and \<open>ReadReplicaDatabase\<close> (a \<open>Database\<close> embedded, with the
  storage \<open>srcDB\<close> of the remote). A nil interface value is \<open>None\<close>.
\<close>

datatype RevisionType =
  RevisionTypeNone | RevisionTypeBranch | RevisionTypeTag | RevisionTypeCommit

record Database =
  db_name :: string
  db_ddb :: nat
  db_head :: "string option"
  db_revision :: string
  db_revType :: RevisionType

datatype SqlDatabase =
    PlainDatabase Database
  | ReadOnlyDatabase Database
  | ReadReplicaDatabase Database nat

fun embedded :: "SqlDatabase \<Rightarrow> Database" where
  "embedded (PlainDatabase d) = d"
| "embedded (ReadOnlyDatabase d) = d"
| "embedded (ReadReplicaDatabase d srcDB) = d"

definition Name :: "SqlDatabase \<Rightarrow> string" where
  "Name db = db_name (embedded db)"

definition Revision :: "SqlDatabase \<Rightarrow> string" where
  "Revision db = db_revision (embedded db)"

text \<open>
  Modelled from the spec: \<open>dsess.SplitRevisionDbName\<close> is not among the sources. A
  revision-qualified database is a database name suffixed with a revision spec; the function
  gives the base name and the revision of a database, the revision empty for a database that
  is not pinned to one.
\<close>

definition SplitRevisionDbName :: "SqlDatabase \<Rightarrow> string \<times> string" where
  "SplitRevisionDbName db =
     (let rev = Revision db;
          suffix = DbRevisionDelimiter @ rev;
          dbName = Name db
      in if rev \<noteq> [] \<and> suffix = drop (length dbName - length suffix) dbName
         then (take (length dbName - length suffix) dbName, rev)
         else (dbName, rev))"

text \<open>The message of an error (\<open>err.Error()\<close>); the two kinds of the SQL engine print as
  the engine formats them.\<close>

fun Error :: "error \<Rightarrow> string" where
  "Error (ErrDatabaseNotFound n) = ''database not found: '' @ n"
| "Error (ErrDatabaseExists n) = ''can't create database '' @ n @ ''; database exists''"
| "Error (Errorf m) = m"
| "Error (ExternalError m) = m"
| "Error (Panic m) = m"

section \<open>The world outside the provider\<close>

text \<open>
  The collaborators the provider calls are not part of the modelled file; each is a field of
  the record \<open>World\<close>, a function of the arguments the provider passes, and every theorem
  holds for every world. A storage handle, a commit and a cloned environment are numbers.
  \<^item> Storage (package \<open>doltdb\<close>): \<open>SplitAncestorSpec\<close> gives the ref name and the ancestor
    spec string (empty when there is none); \<open>GetRefByNameInsensitive\<close>,
    \<open>ResolveCommitRef\<close>, \<open>GetAncestor\<close>, \<open>HashOf\<close>; \<open>HasBranch\<close> and
    \<open>HasRemoteTrackingBranch\<close> give the name as stored and whether the branch exists;
    \<open>HasTag\<close>; \<open>IsValidCommitHash\<close>; \<open>Close\<close>; \<open>DeleteFromSingletonCache\<close>;
    \<open>CreateLocalBranchFromRemote\<close> of a read replica.
  \<^item> The global system variables \<open>ReadReplicaRemote\<close>, \<open>ReplicationRemoteURLTemplate\<close> and
    \<open>ReplicateToRemote\<close>, as strings, and \<open>GetSessionVariable\<close> of the session.
  \<^item> The file system \<open>p.fs\<close>: its state is a value of the type \<open>'fs\<close>; \<open>Exists\<close> reads it,
    \<open>Delete\<close> gives the new state and an error, \<open>Abs\<close> is \<open>Abs("")\<close>. Every collaborator
    that writes to the disk takes the state and gives the new one: \<open>EnvForClone\<close>,
    \<open>CloneRemote\<close>, \<open>UpdateBranch\<close>, \<open>InitDatabaseHook\<close> (the provider's injectable
    hook), \<open>AddRemote\<close>.
  \<^item> \<open>GetRemoteDB\<close> of a remote; \<open>NewDatabase\<close>, which can fail; \<open>Prepare\<close>,
    \<open>GetCommitHooks\<close>, \<open>ExecuteCommitHooks\<close> of the replication hook.
  \<^item> Sessions: \<open>RemoveDbState_ctx\<close> of the calling session, the sessions of the running
    server (\<open>None\<close> without one), \<open>RemoveDbState\<close> of a server session. A session is a
    \<open>*dsess.DoltSession\<close> or a value of another type, given by the name that \<open>%T\<close> prints.
\<close>

datatype Session = DoltSession nat | OtherSession string

record 'fs World =
  SplitAncestorSpec :: "string \<Rightarrow> error + string \<times> string"
  GetRefByNameInsensitive :: "nat \<Rightarrow> string \<Rightarrow> error + string"
  ResolveCommitRef :: "nat \<Rightarrow> string \<Rightarrow> error + nat"
  GetAncestor :: "nat \<Rightarrow> string \<Rightarrow> error + nat"
  HashOf :: "nat \<Rightarrow> error + string"
  HasBranch :: "nat \<Rightarrow> string \<Rightarrow> error + string \<times> bool"
  HasRemoteTrackingBranch :: "nat \<Rightarrow> string \<Rightarrow> error + string \<times> bool"
  HasTag :: "nat \<Rightarrow> string \<Rightarrow> error + bool"
  IsValidCommitHash :: "string \<Rightarrow> bool"
  Close :: "nat \<Rightarrow> error option"
  DeleteFromSingletonCache :: "string \<Rightarrow> error option"
  CreateLocalBranchFromRemote :: "SqlDatabase \<Rightarrow> string \<Rightarrow> error option"
  ReadReplicaRemote :: string
  ReplicationRemoteURLTemplate :: string
  ReplicateToRemote :: string
  GetSessionVariable :: "string \<Rightarrow> error + int"
  Exists :: "'fs \<Rightarrow> string \<Rightarrow> bool \<times> bool"
  Delete :: "'fs \<Rightarrow> string \<Rightarrow> bool \<Rightarrow> 'fs \<times> error option"
  Abs :: "'fs \<Rightarrow> error + string"
  GetRemoteDB :: "string \<Rightarrow> string \<Rightarrow> error + nat"
  EnvForClone :: "'fs \<Rightarrow> nat \<Rightarrow> string \<Rightarrow> string \<Rightarrow> string \<Rightarrow> 'fs \<times> (error + nat)"
  CloneRemote :: "'fs \<Rightarrow> nat \<Rightarrow> string \<Rightarrow> string \<Rightarrow> nat \<Rightarrow> 'fs \<times> error option"
  UpdateBranch :: "'fs \<Rightarrow> nat \<Rightarrow> string \<Rightarrow> 'fs \<times> error option"
  NewDatabase :: "string \<Rightarrow> nat \<Rightarrow> error option"
  InitDatabaseHook :: "'fs \<Rightarrow> string \<Rightarrow> nat \<Rightarrow> 'fs \<times> error option"
  Prepare :: "string \<Rightarrow> string \<Rightarrow> nat \<Rightarrow> error option"
  AddRemote :: "'fs \<Rightarrow> nat \<Rightarrow> string \<Rightarrow> string \<Rightarrow> 'fs \<times> error option"
  GetCommitHooks :: "nat \<Rightarrow> error option"
  ExecuteCommitHooks :: "nat \<Rightarrow> string \<Rightarrow> error option"
  RemoveDbState_ctx :: "string \<Rightarrow> error option"
  GetRunningServer :: "Session list option"
  RemoveDbState :: "nat \<Rightarrow> string \<Rightarrow> error option"

section \<open>The provider\<close>

text \<open>
  The struct \<open>DoltDatabaseProvider\<close>. A method has a value receiver, but the two maps and
  the standby flag are shared by every copy, so a method takes the provider and gives the
  provider it leaves behind. The record carries the state the methods change: the two maps,
  the standby flag, the state of the file system \<open>p.fs\<close>, and the warnings written to the
  logger of the context. A location (a \<open>filesys.Filesys\<close> of a database) is read through
  \<open>Abs("")\<close> only and is the result of that call. \<open>remoteDialer\<close> is whether the dialer is
  set. The maps of functions and procedures and \<open>dbFactoryUrl\<close> play no part in the
  modelled methods and are left out; the mutex is left out, a method runs alone.
\<close>

record 'fs DoltDatabaseProvider =
  dbLocations :: "string \<rightharpoonup> error + string"
  databases :: "string \<rightharpoonup> SqlDatabase"
  defaultBranch :: string
  fs :: 'fs
  remoteDialer :: bool
  isStandby :: bool
  warnings :: "string list"

section \<open>Construction, standby, locations\<close>

text \<open>The decimal digits of a number (\<open>%d\<close>).\<close>

function Itoa :: "nat \<Rightarrow> string" where
  "Itoa n = (if n < 10 then [char_of (48 + n)] else Itoa (n div 10) @ [char_of (48 + n mod 10)])"
  by pat_completeness auto
termination
  by (relation "measure id") auto

declare Itoa.simps [simp del]

text \<open>
  \<^verbatim>\<open>
  func NewDoltDatabaseProviderWithDatabases(defaultBranch string, fs filesys.Filesys,
          databases []dsess.SqlDatabase, locations []filesys.Filesys) (DoltDatabaseProvider, error) {
      if len(databases) != len(locations) {
          return DoltDatabaseProvider{}, fmt.Errorf("unable to create DoltDatabaseProvider: "+
              "incorrect number of databases (%d) and database locations (%d) specified", ...)
      }
      dbs := make(map[string]dsess.SqlDatabase, len(databases))
      for _, db := range databases {
          dbs[strings.ToLower(db.Name())] = db
      }
      dbLocations := make(map[string]filesys.Filesys, len(locations))
      for i, dbLocation := range locations {
          dbLocations[databases[i].Name()] = dbLocation
      }
      ...
  \<close>
\<close>

definition NewDoltDatabaseProviderWithDatabases ::
  "string \<Rightarrow> 'fs \<Rightarrow> SqlDatabase list \<Rightarrow> (error + string) list \<Rightarrow>
     error + 'fs DoltDatabaseProvider" where
  "NewDoltDatabaseProviderWithDatabases branch rootFs dbs locations =
     (if length dbs \<noteq> length locations then
        Inl (Errorf (''unable to create DoltDatabaseProvider: '' @
          ''incorrect number of databases ('' @ Itoa (length dbs) @
          '') and database locations ('' @ Itoa (length locations) @ '') specified''))
      else
        Inr \<lparr>dbLocations =
               fold (\<lambda>(db, dbLocation) m. m(Name db \<mapsto> dbLocation)) (zip dbs locations) Map.empty,
             databases = fold (\<lambda>db m. m(ToLower (Name db) \<mapsto> db)) dbs Map.empty,
             defaultBranch = branch, fs = rootFs, remoteDialer = False,
             isStandby = False, warnings = []\<rparr>)"

definition WithRemoteDialer :: "'fs DoltDatabaseProvider \<Rightarrow> 'fs DoltDatabaseProvider" where
  "WithRemoteDialer p = p\<lparr>remoteDialer := True\<rparr>"

definition SetIsStandby :: "bool \<Rightarrow> 'fs DoltDatabaseProvider \<Rightarrow> 'fs DoltDatabaseProvider" where
  "SetIsStandby standby p = p\<lparr>isStandby := standby\<rparr>"

text \<open>
  \<^verbatim>\<open>
  func (p DoltDatabaseProvider) FileSystemForDatabase(dbname string) (filesys.Filesys, error) {
      dbLocation, ok := p.dbLocations[dbname]
      if !ok {
          return nil, sql.ErrDatabaseNotFound.New(dbname)
      }
      return dbLocation, nil
  }
  \<close>
\<close>

definition FileSystemForDatabase :: "'fs DoltDatabaseProvider \<Rightarrow> string \<Rightarrow> error + (error + string)" where
  "FileSystemForDatabase p dbname =
     (case dbLocations p dbname of
        None \<Rightarrow> Inl (ErrDatabaseNotFound dbname)
      | Some dbLocation \<Rightarrow> Inr dbLocation)"

text \<open>
  \<^verbatim>\<open>
  func wrapForStandby(db dsess.SqlDatabase, standby bool) dsess.SqlDatabase {
      if !standby { return db }
      if _, ok := db.(ReadOnlyDatabase); ok { return db }
      if db, ok := db.(Database); ok { return ReadOnlyDatabase{db} }
      return db
  }
  \<close>
  The last line is reached by a read replica database and by nil.
\<close>

fun wrapForStandby :: "SqlDatabase option \<Rightarrow> bool \<Rightarrow> SqlDatabase option" where
  "wrapForStandby db False = db"
| "wrapForStandby (Some (ReadOnlyDatabase d)) True = Some (ReadOnlyDatabase d)"
| "wrapForStandby (Some (PlainDatabase d)) True = Some (ReadOnlyDatabase d)"
| "wrapForStandby db True = db"

text \<open>
  \<^verbatim>\<open>
  func (p DoltDatabaseProvider) DoltDatabases() []dsess.SqlDatabase {
      dbs := make([]dsess.SqlDatabase, len(p.databases))
      i := 0
      for _, db := range p.databases {
          dbs[i] = db
          i++
      }
      sort.Slice(dbs, func(i, j int) bool {
          return strings.ToLower(dbs[i].Name()) < strings.ToLower(dbs[j].Name())
      })
      return dbs
  }
  \<close>
  The second argument lists the keys of the map in the order in which the \<open>range\<close> loop
  visits them, which Go leaves unspecified. \<open>sort.Slice\<close> is not stable: databases whose
  lower-case names are equal come in an order that the order of the keys stands for.
\<close>

definition DoltDatabases :: "'fs DoltDatabaseProvider \<Rightarrow> string list \<Rightarrow> SqlDatabase list" where
  "DoltDatabases p keys =
     sort_key (\<lambda>db. ToLower (Name db)) (List.map_filter (databases p) keys)"

text \<open>\<open>ctx.GetLogger().Warnf\<close>: the message is added to the warnings.\<close>

definition Warnf :: "string \<Rightarrow> 'fs DoltDatabaseProvider \<Rightarrow> 'fs DoltDatabaseProvider" where
  "Warnf msg p = p\<lparr>warnings := warnings p @ [msg]\<rparr>"

section \<open>Revisions\<close>

text \<open>
  \<open>resolveAncestorSpec\<close> gives the revision spec as it is when it has no ancestor part, and
  else the hash of the ancestor commit; every error of the storage is returned.
\<close>

definition resolveAncestorSpec :: "'fs World \<Rightarrow> string \<Rightarrow> nat \<Rightarrow> error + string" where
  "resolveAncestorSpec w revSpec ddb =
     (case SplitAncestorSpec w revSpec of
        Inl err \<Rightarrow> Inl err
      | Inr (refname, ancestorSpec) \<Rightarrow>
          if ancestorSpec = [] then Inr revSpec
          else (case GetRefByNameInsensitive w ddb refname of
                  Inl err \<Rightarrow> Inl err
                | Inr ref \<Rightarrow>
                   (case ResolveCommitRef w ddb ref of
                      Inl err \<Rightarrow> Inl err
                    | Inr cm \<Rightarrow>
                       (case GetAncestor w cm ancestorSpec of
                          Inl err \<Rightarrow> Inl err
                        | Inr cm \<Rightarrow>
                           (case HashOf w cm of
                              Inl err \<Rightarrow> Inl err
                            | Inr hash \<Rightarrow> Inr hash)))))"

text \<open>\<open>doltDbs\<close>: the storages a database is looked up in, for a read replica its own and
  the remote's. Its error for a value of another type cannot arise for the three types.\<close>

fun doltDbs :: "SqlDatabase \<Rightarrow> nat list" where
  "doltDbs (ReadReplicaDatabase d srcDB) = [db_ddb d, srcDB]"
| "doltDbs (PlainDatabase d) = [db_ddb d]"
| "doltDbs (ReadOnlyDatabase d) = [db_ddb d]"

fun isLocalBranch :: "'fs World \<Rightarrow> nat list \<Rightarrow> string \<Rightarrow> error + string \<times> bool" where
  "isLocalBranch w [] branchName = Inr ([], False)"
| "isLocalBranch w (ddb # ddbs) branchName =
     (case HasBranch w ddb branchName of
        Inl err \<Rightarrow> Inl err
      | Inr (brName, branchExists) \<Rightarrow>
          if branchExists then Inr (brName, True) else isLocalBranch w ddbs branchName)"

fun isRemoteBranch :: "'fs World \<Rightarrow> nat list \<Rightarrow> string \<Rightarrow> error + string \<times> bool" where
  "isRemoteBranch w [] branchName = Inr ([], False)"
| "isRemoteBranch w (ddb # ddbs) branchName =
     (case HasRemoteTrackingBranch w ddb branchName of
        Inl err \<Rightarrow> Inl err
      | Inr (bn, branchExists) \<Rightarrow>
          if branchExists then Inr (bn, True) else isRemoteBranch w ddbs branchName)"

definition isBranch :: "'fs World \<Rightarrow> SqlDatabase \<Rightarrow> string \<Rightarrow> error + string \<times> bool" where
  "isBranch w db branchName =
     (let ddbs = doltDbs db in
      case isLocalBranch w ddbs branchName of
        Inl err \<Rightarrow> Inl err
      | Inr (brName, branchExists) \<Rightarrow>
          if branchExists then Inr (brName, True)
          else (case isRemoteBranch w ddbs branchName of
                  Inl err \<Rightarrow> Inl err
                | Inr (brName, branchExists) \<Rightarrow>
                    if branchExists then Inr (brName, True) else Inr ([], False)))"

fun isTag_loop :: "'fs World \<Rightarrow> nat list \<Rightarrow> string \<Rightarrow> error + bool" where
  "isTag_loop w [] tagName = Inr False"
| "isTag_loop w (ddb # ddbs) tagName =
     (case HasTag w ddb tagName of
        Inl err \<Rightarrow> Inl err
      | Inr tagExists \<Rightarrow> if tagExists then Inr True else isTag_loop w ddbs tagName)"

definition isTag :: "'fs World \<Rightarrow> SqlDatabase \<Rightarrow> string \<Rightarrow> error + bool" where
  "isTag w db tagName = isTag_loop w (doltDbs db) tagName"

text \<open>
  \<^verbatim>\<open>
  func revisionDbType(ctx *sql.Context, srcDb dsess.SqlDatabase, revSpec string) (..., err error) {
      resolvedRevSpec, err = resolveAncestorSpec(ctx, revSpec, srcDb.DbData().Ddb)
      if err != nil { return 0, "", err }
      caseSensitiveBranchName, isBranch, err := isBranch(ctx, srcDb, resolvedRevSpec)
      if err != nil { return 0, "", err }
      if isBranch { return dsess.RevisionTypeBranch, caseSensitiveBranchName, nil }
      isTag, err := isTag(ctx, srcDb, resolvedRevSpec)
      if err != nil { return 0, "", err }
      if isTag { return dsess.RevisionTypeTag, resolvedRevSpec, nil }
      if doltdb.IsValidCommitHash(resolvedRevSpec) {
          return dsess.RevisionTypeCommit, resolvedRevSpec, nil
      }
      return dsess.RevisionTypeNone, "", nil
  }
  \<close>
\<close>

definition revisionDbType ::
  "'fs World \<Rightarrow> SqlDatabase \<Rightarrow> string \<Rightarrow> error + RevisionType \<times> string" where
  "revisionDbType w srcDb revSpec =
     (case resolveAncestorSpec w revSpec (db_ddb (embedded srcDb)) of
        Inl err \<Rightarrow> Inl err
      | Inr resolvedRevSpec \<Rightarrow>
         (case isBranch w srcDb resolvedRevSpec of
            Inl err \<Rightarrow> Inl err
          | Inr (caseSensitiveBranchName, isBranch_) \<Rightarrow>
              if isBranch_ then Inr (RevisionTypeBranch, caseSensitiveBranchName)
              else (case isTag w srcDb resolvedRevSpec of
                      Inl err \<Rightarrow> Inl err
                    | Inr isTag_ \<Rightarrow>
                        if isTag_ then Inr (RevisionTypeTag, resolvedRevSpec)
                        else if IsValidCommitHash w resolvedRevSpec
                          then Inr (RevisionTypeCommit, resolvedRevSpec)
                        else Inr (RevisionTypeNone, []))))"

text \<open>
  The database a revision function makes of a source database: named by the source and the
  revision spec, on the storage of the source. \<open>revisionDbForBranch\<close> pins the repository
  state to the branch and keeps the type of the source; it has no case for a read-only
  source and then returns nil with no error. \<open>revisionDbForTag\<close> and
  \<open>revisionDbForCommit\<close> make a read-only database on the repository state of the source.
\<close>

definition revisionDb :: "Database \<Rightarrow> string \<Rightarrow> string option \<Rightarrow> RevisionType \<Rightarrow> Database" where
  "revisionDb v revSpec head rt =
     \<lparr>db_name = db_name v @ DbRevisionDelimiter @ revSpec, db_ddb = db_ddb v, db_head = head,
      db_revision = revSpec, db_revType = rt\<rparr>"

fun revisionDbForBranch :: "SqlDatabase \<Rightarrow> string \<Rightarrow> SqlDatabase option \<times> error option" where
  "revisionDbForBranch (PlainDatabase v) revSpec =
     (Some (PlainDatabase (revisionDb v revSpec (Some revSpec) RevisionTypeBranch)), None)"
| "revisionDbForBranch (ReadReplicaDatabase v srcDB) revSpec =
     (Some (ReadReplicaDatabase (revisionDb v revSpec (Some revSpec) RevisionTypeBranch) srcDB), None)"
| "revisionDbForBranch (ReadOnlyDatabase v) revSpec = (None, None)"

definition revisionDbForTag :: "Database \<Rightarrow> string \<Rightarrow> SqlDatabase \<times> error option" where
  "revisionDbForTag srcDb revSpec =
     (ReadOnlyDatabase (revisionDb srcDb revSpec (db_head srcDb) RevisionTypeTag), None)"

definition revisionDbForCommit :: "Database \<Rightarrow> string \<Rightarrow> SqlDatabase \<times> error option" where
  "revisionDbForCommit srcDb revSpec =
     (ReadOnlyDatabase (revisionDb srcDb revSpec (db_head srcDb) RevisionTypeCommit), None)"

definition ensureReplicaHeadExists :: "'fs World \<Rightarrow> string \<Rightarrow> SqlDatabase \<Rightarrow> error option" where
  "ensureReplicaHeadExists w branch db = CreateLocalBranchFromRemote w db branch"

fun asDatabase :: "SqlDatabase \<Rightarrow> Database option" where
  "asDatabase (ReadReplicaDatabase d srcDB) = Some d"
| "asDatabase (PlainDatabase d) = Some d"
| "asDatabase (ReadOnlyDatabase d) = None"

fun isReadReplicaDatabase :: "SqlDatabase \<Rightarrow> bool" where
  "isReadReplicaDatabase (ReadReplicaDatabase d srcDB) = True"
| "isReadReplicaDatabase db = False"

text \<open>
  \<open>databaseForRevision\<close>: a name without the delimiter, or with a base name that is not
  registered, is not found; else the revision spec is classified against the registered
  database, and the database of the revision is made. For a tag or a commit the source must
  be a \<open>Database\<close>, a read replica counting as the one it embeds. The commit case passes the
  revision spec as typed, the other cases the resolved one.
\<close>

definition databaseForRevision ::
  "'fs World \<Rightarrow> 'fs DoltDatabaseProvider \<Rightarrow> string \<Rightarrow> error + SqlDatabase option \<times> bool" where
  "databaseForRevision w p revDB =
     (if \<not> Contains_delimiter revDB then Inr (None, False)
      else
        let (dbName, revSpec) = SplitN_2 revDB in
        case databases p (formatDbMapKeyName dbName) of
          None \<Rightarrow> Inr (None, False)
        | Some srcDb \<Rightarrow>
           (case revisionDbType w srcDb revSpec of
              Inl err \<Rightarrow> Inl err
            | Inr (dbType, resolvedRevSpec) \<Rightarrow>
               (case dbType of
                  RevisionTypeBranch \<Rightarrow>
                    (case (if isReadReplicaDatabase srcDb
                           then ensureReplicaHeadExists w resolvedRevSpec srcDb else None) of
                       Some err \<Rightarrow> Inl err
                     | None \<Rightarrow>
                        (case revisionDbForBranch srcDb resolvedRevSpec of
                           (db, Some (ErrDatabaseNotFound n)) \<Rightarrow> Inl (ErrDatabaseNotFound revDB)
                         | (db, Some err) \<Rightarrow> Inl err
                         | (db, None) \<Rightarrow> Inr (db, True)))
                | RevisionTypeTag \<Rightarrow>
                    (case asDatabase srcDb of
                       None \<Rightarrow> Inr (None, False)
                     | Some srcDb \<Rightarrow>
                        (case revisionDbForTag srcDb resolvedRevSpec of
                           (db, Some err) \<Rightarrow> Inl err
                         | (db, None) \<Rightarrow> Inr (Some db, True)))
                | RevisionTypeCommit \<Rightarrow>
                    (case asDatabase srcDb of
                       None \<Rightarrow> Inr (None, False)
                     | Some srcDb \<Rightarrow>
                        (case revisionDbForCommit srcDb revSpec of
                           (db, Some err) \<Rightarrow> Inl err
                         | (db, None) \<Rightarrow> Inr (Some db, True)))
                | RevisionTypeNone \<Rightarrow> Inr (None, False))))"

section \<open>Cloning\<close>

text \<open>\<open>strings.Replace(s, old, new, -1)\<close> for a placeholder \<open>old\<close> that is not empty, and
  the placeholder \<open>dsess.URLTemplateDatabasePlaceholder\<close>.\<close>

definition URLTemplateDatabasePlaceholder :: string where
  "URLTemplateDatabasePlaceholder = ''{database}''"

function Replace :: "string \<Rightarrow> string \<Rightarrow> string \<Rightarrow> string" where
  "Replace s old new =
     (if s = [] \<or> old = [] then s
      else if prefix old s then new @ Replace (drop (length old) s) old new
      else hd s # Replace (tl s) old new)"
  by pat_completeness auto
termination
  by (relation "measure (\<lambda>(s, old, new). length s)") (auto simp: prefix_def)

declare Replace.simps [simp del]

definition ErrRemoteAlreadyExists :: error where
  "ErrRemoteAlreadyExists = ExternalError ''remote already exists''"

definition readReplicationActive :: "'fs World \<Rightarrow> bool" where
  "readReplicationActive w =
     (if ReadReplicaRemote w = [] then False
      else if ReplicationRemoteURLTemplate w = [] then False
      else True)"

text \<open>\<open>ConfigureReplicationDatabaseHook\<close>: nothing to do unless the variables of
  replication to a remote are set; else the remote is prepared and added, the commit hooks
  are set and run once for the default branch.\<close>

definition ConfigureReplicationDatabaseHook ::
  "'fs World \<Rightarrow> 'fs DoltDatabaseProvider \<Rightarrow> string \<Rightarrow> nat \<Rightarrow>
     'fs DoltDatabaseProvider \<times> error option" where
  "ConfigureReplicationDatabaseHook w p name newEnv =
     (if ReplicateToRemote w = [] then (p, None)
      else if ReplicationRemoteURLTemplate w = [] then (p, None)
      else
        let remoteName = ReplicateToRemote w;
            remoteUrl = Replace (ReplicationRemoteURLTemplate w) URLTemplateDatabasePlaceholder name
        in case Prepare w remoteName remoteUrl newEnv of
             Some err \<Rightarrow> (p, Some err)
           | None \<Rightarrow>
              (case AddRemote w (fs p) newEnv remoteName remoteUrl of
                 (fs1, err) \<Rightarrow>
                   if err \<noteq> Some ErrRemoteAlreadyExists \<and> err \<noteq> None then (p\<lparr>fs := fs1\<rparr>, err)
                   else (case GetCommitHooks w newEnv of
                           Some err \<Rightarrow> (p\<lparr>fs := fs1\<rparr>, Some err)
                         | None \<Rightarrow>
                             (p\<lparr>fs := fs1\<rparr>, ExecuteCommitHooks w newEnv (defaultBranch p)))))"

text \<open>
  \<open>cloneDatabaseFromRemote\<close>, the inner clone: each step can fail and ends the clone with
  its error, but the error of \<open>UpdateBranch\<close> is assigned and overwritten before it is
  read. On success the new database is registered under the key of its name. The new
  database is the \<open>Database\<close> that \<open>NewDatabase\<close> makes of the name and the data of the
  cloned environment.
\<close>

definition cloneDatabaseFromRemote ::
  "'fs World \<Rightarrow> 'fs DoltDatabaseProvider \<Rightarrow> string \<Rightarrow> string \<Rightarrow> string \<Rightarrow> string \<Rightarrow>
     'fs DoltDatabaseProvider \<times> (error + nat)" where
  "cloneDatabaseFromRemote w p dbName remoteName branch remoteUrl =
     (if \<not> remoteDialer p then
        (p, Inl (Errorf ''unable to clone remote database; no remote dialer configured''))
      else
        case GetRemoteDB w remoteName remoteUrl of
          Inl err \<Rightarrow> (p, Inl err)
        | Inr srcDB \<Rightarrow>
           (case EnvForClone w (fs p) srcDB remoteName remoteUrl dbName of
              (fs1, Inl err) \<Rightarrow> (p\<lparr>fs := fs1\<rparr>, Inl err)
            | (fs1, Inr dEnv) \<Rightarrow>
               (case CloneRemote w fs1 srcDB remoteName branch dEnv of
                  (fs2, Some err) \<Rightarrow> (p\<lparr>fs := fs2\<rparr>, Inl err)
                | (fs2, None) \<Rightarrow>
                   (case UpdateBranch w fs2 dEnv remoteName of
                      (fs3, err) \<Rightarrow>
                       (case GetSessionVariable w ''foreign_key_checks'' of
                          Inl err \<Rightarrow> (p\<lparr>fs := fs3\<rparr>, Inl err)
                        | Inr fkChecks \<Rightarrow>
                           (case NewDatabase w dbName dEnv of
                              Some err \<Rightarrow> (p\<lparr>fs := fs3\<rparr>, Inl err)
                            | None \<Rightarrow>
                               let db = PlainDatabase \<lparr>db_name = dbName, db_ddb = dEnv,
                                          db_head = None, db_revision = [],
                                          db_revType = RevisionTypeNone\<rparr>
                               in (case InitDatabaseHook w fs3 dbName dEnv of
                                     (fs4, Some err) \<Rightarrow> (p\<lparr>fs := fs4\<rparr>, Inl err)
                                   | (fs4, None) \<Rightarrow>
                                       (p\<lparr>fs := fs4,
                                          databases := (databases p)
                                            (formatDbMapKeyName (Name db) \<mapsto> db)\<rparr>,
                                        Inr dEnv))))))))"

text \<open>
  \<^verbatim>\<open>
  func (p DoltDatabaseProvider) CloneDatabaseFromRemote(ctx *sql.Context,
          dbName, branch, remoteName, remoteUrl string, remoteParams map[string]string) error {
      exists, isDir := p.fs.Exists(dbName)
      if exists && isDir {
          return sql.ErrDatabaseExists.New(dbName)
      } else if exists {
          return fmt.Errorf("cannot create DB, file exists at %s", dbName)
      }
      dEnv, err := p.cloneDatabaseFromRemote(ctx, dbName, remoteName, branch, remoteUrl, remoteParams)
      if err != nil {
          // Make a best effort to clean up any artifacts on disk from a failed clone
          // before we return the error
          exists, _ := p.fs.Exists(dbName)
          if exists {
              deleteErr := p.fs.Delete(dbName, true)
              if deleteErr != nil {
                  err = fmt.Errorf("%s: unable to clean up failed clone in directory '%s'",
                      err.Error(), dbName)
              }
          }
          return err
      }
      return ConfigureReplicationDatabaseHook(ctx, p, dbName, dEnv)
  }
  \<close>
\<close>

definition cleanupMessage :: "error \<Rightarrow> string \<Rightarrow> string" where
  "cleanupMessage err dbName =
     Error err @ '': unable to clean up failed clone in directory '' @ [CHR 0x27] @ dbName @ [CHR 0x27]"

definition CloneDatabaseFromRemote ::
  "'fs World \<Rightarrow> 'fs DoltDatabaseProvider \<Rightarrow> string \<Rightarrow> string \<Rightarrow> string \<Rightarrow> string \<Rightarrow>
     'fs DoltDatabaseProvider \<times> error option" where
  "CloneDatabaseFromRemote w p dbName branch remoteName remoteUrl =
     (case Exists w (fs p) dbName of
        (exists, isDir) \<Rightarrow>
          if exists \<and> isDir then (p, Some (ErrDatabaseExists dbName))
          else if exists then (p, Some (Errorf (''cannot create DB, file exists at '' @ dbName)))
          else
            (case cloneDatabaseFromRemote w p dbName remoteName branch remoteUrl of
               (p, Inl err) \<Rightarrow>
                 (case Exists w (fs p) dbName of
                    (exists, isDir) \<Rightarrow>
                      if exists then
                        (case Delete w (fs p) dbName True of
                           (fs1, deleteErr) \<Rightarrow>
                             (p\<lparr>fs := fs1\<rparr>,
                              Some (if deleteErr \<noteq> None
                                    then Errorf (cleanupMessage err dbName)
                                    else err)))
                      else (p, Some err))
             | (p, Inr dEnv) \<Rightarrow> ConfigureReplicationDatabaseHook w p dbName dEnv))"

definition attemptCloneReplica ::
  "'fs World \<Rightarrow> 'fs DoltDatabaseProvider \<Rightarrow> string \<Rightarrow> 'fs DoltDatabaseProvider \<times> error option" where
  "attemptCloneReplica w p dbName =
     (if ReadReplicaRemote w = [] then (p, None)
      else
        let remoteName = ReadReplicaRemote w in
        if ReplicationRemoteURLTemplate w = [] then (p, None)
        else
          let remoteUrl = Replace (ReplicationRemoteURLTemplate w) URLTemplateDatabasePlaceholder dbName
          in CloneDatabaseFromRemote w p dbName (defaultBranch p) remoteName remoteUrl)"

section \<open>Lookup\<close>

text \<open>
  \<^verbatim>\<open>
  func (p DoltDatabaseProvider) SessionDatabase(ctx *sql.Context, name string)
          (dsess.SqlDatabase, bool, error) {
      db, ok := p.databases[formatDbMapKeyName(name)]
      standby := *p.isStandby
      if ok { return wrapForStandby(db, standby), true, nil }
      db, ok, err := p.databaseForRevision(ctx, name)
      if err != nil { return nil, false, err }
      if !ok {
          db, err = p.databaseForClone(ctx, name)
          if err != nil { return nil, false, err }
          if db == nil { return nil, false, nil }
      }
      return wrapForStandby(db, standby), true, nil
  }

  func (p DoltDatabaseProvider) databaseForClone(ctx *sql.Context, revDB string)
          (dsess.SqlDatabase, error) {
      if !readReplicationActive(ctx) { return nil, nil }
      var dbName string
      if strings.Contains(revDB, dsess.DbRevisionDelimiter) {
          parts := strings.SplitN(revDB, dsess.DbRevisionDelimiter, 2)
          dbName = parts[0]
      } else {
          dbName = revDB
      }
      err := p.attemptCloneReplica(ctx, dbName)
      if err != nil {
          ctx.GetLogger().Warnf("couldn't clone database %s: %s", dbName, err.Error())
          return nil, nil
      }
      // now that the database has been cloned, retry the Database call
      database, err := p.Database(ctx, revDB)
      return database.(dsess.SqlDatabase), err
  }

  func (p DoltDatabaseProvider) Database(ctx *sql.Context, name string) (sql.Database, error) {
      database, b, err := p.SessionDatabase(ctx, name)
      if err != nil { return nil, err }
      if !b { return nil, sql.ErrDatabaseNotFound.New(name) }
      return database, nil
  }
  \<close>
  The three methods call each other: a lookup that clones retries the lookup. The first
  argument bounds the number of lookups nested in one another, and \<open>None\<close> is a lookup cut
  off by the bound. A result of \<open>SessionDatabase\<close> is an error, or the database and whether
  it was found: \<open>(nil, false, nil)\<close> is \<open>Inr (None, False)\<close>. The type assertion in the last
  line of \<open>databaseForClone\<close> panics on a nil interface value, which \<open>Database\<close> returns
  with every error. The method \<open>Database\<close> is \<open>Database_lookup\<close>.
\<close>

fun SessionDatabase ::
    "nat \<Rightarrow> 'fs World \<Rightarrow> 'fs DoltDatabaseProvider \<Rightarrow> string \<Rightarrow>
      ('fs DoltDatabaseProvider \<times> (error + SqlDatabase option \<times> bool)) option"
  and databaseForClone ::
    "nat \<Rightarrow> 'fs World \<Rightarrow> 'fs DoltDatabaseProvider \<Rightarrow> string \<Rightarrow>
      ('fs DoltDatabaseProvider \<times> SqlDatabase option \<times> error option) option"
  and Database_lookup ::
    "nat \<Rightarrow> 'fs World \<Rightarrow> 'fs DoltDatabaseProvider \<Rightarrow> string \<Rightarrow>
      ('fs DoltDatabaseProvider \<times> SqlDatabase option \<times> error option) option"
where
  "SessionDatabase 0 w p name = None"
| "SessionDatabase (Suc n) w p name =
     (let standby = isStandby p in
      case databases p (formatDbMapKeyName name) of
        Some db \<Rightarrow> Some (p, Inr (wrapForStandby (Some db) standby, True))
      | None \<Rightarrow>
         (case databaseForRevision w p name of
            Inl err \<Rightarrow> Some (p, Inl err)
          | Inr (db, ok) \<Rightarrow>
              if \<not> ok then
                (case databaseForClone n w p name of
                   None \<Rightarrow> None
                 | Some (p, db, Some err) \<Rightarrow> Some (p, Inl err)
                 | Some (p, None, None) \<Rightarrow> Some (p, Inr (None, False))
                 | Some (p, Some db, None) \<Rightarrow>
                     Some (p, Inr (wrapForStandby (Some db) standby, True)))
              else Some (p, Inr (wrapForStandby db standby, True))))"
| "databaseForClone n w p revDB =
     (if \<not> readReplicationActive w then Some (p, None, None)
      else
        let dbName = (if Contains_delimiter revDB then fst (SplitN_2 revDB) else revDB) in
        case attemptCloneReplica w p dbName of
          (p, Some err) \<Rightarrow>
            Some (Warnf (''couldn't clone database '' @ dbName @ '': '' @ Error err) p, None, None)
        | (p, None) \<Rightarrow>
           (case Database_lookup n w p revDB of
              None \<Rightarrow> None
            | Some (p, None, err) \<Rightarrow>
                Some (p, None,
                  Some (Panic ''interface conversion: interface is nil, not dsess.SqlDatabase''))
            | Some (p, Some database, err) \<Rightarrow> Some (p, Some database, err)))"
| "Database_lookup n w p name =
     (case SessionDatabase n w p name of
        None \<Rightarrow> None
      | Some (p, Inl err) \<Rightarrow> Some (p, None, Some err)
      | Some (p, Inr (database, b)) \<Rightarrow>
          if \<not> b then Some (p, None, Some (ErrDatabaseNotFound name))
          else Some (p, database, None))"

lemma databaseForClone_inactive:
  "\<not> readReplicationActive w \<Longrightarrow> databaseForClone n w p revDB = Some (p, None, None)"
  by simp

lemma SessionDatabase_inactive:
  assumes "\<not> readReplicationActive w"
  shows "SessionDatabase (Suc n) w p name =
     (case databases p (formatDbMapKeyName name) of
        Some db \<Rightarrow> Some (p, Inr (wrapForStandby (Some db) (isStandby p), True))
      | None \<Rightarrow>
         (case databaseForRevision w p name of
            Inl err \<Rightarrow> Some (p, Inl err)
          | Inr (db, ok) \<Rightarrow>
              if \<not> ok then Some (p, Inr (None, False))
              else Some (p, Inr (wrapForStandby db (isStandby p), True))))"
  using assms by (simp split: option.splits sum.splits)

declare SessionDatabase.simps(2) [simp del]
declare databaseForClone.simps [simp del]
declare Database_lookup.simps [simp del]

section \<open>Dropping\<close>

text \<open>
  \<open>isRevisionDatabase\<close> looks the name up and reads the revision of the database found;
  a name that is not found is an error. \<open>invalidateDbStateInAllSessions\<close> removes the state
  of the database from the calling session and from every session of a running server.
\<close>

definition isRevisionDatabase ::
  "nat \<Rightarrow> 'fs World \<Rightarrow> 'fs DoltDatabaseProvider \<Rightarrow> string \<Rightarrow>
     ('fs DoltDatabaseProvider \<times> (error + bool)) option" where
  "isRevisionDatabase n w p dbName =
     (case SessionDatabase n w p dbName of
        None \<Rightarrow> None
      | Some (p, Inl err) \<Rightarrow> Some (p, Inl err)
      | Some (p, Inr (db, ok)) \<Rightarrow>
          if \<not> ok then Some (p, Inl (ErrDatabaseNotFound dbName))
          else (case db of
                  None \<Rightarrow> Some (p, Inl (Panic ''invalid memory address or nil pointer dereference''))
                | Some db \<Rightarrow> Some (p, Inr (snd (SplitRevisionDbName db) \<noteq> []))))"

fun Iter_sessions :: "'fs World \<Rightarrow> Session list \<Rightarrow> string \<Rightarrow> error option" where
  "Iter_sessions w [] name = None"
| "Iter_sessions w (OtherSession T # sessions) name =
     Some (Errorf (''unexpected session type: '' @ T))"
| "Iter_sessions w (DoltSession i # sessions) name =
     (case RemoveDbState w i name of
        Some err \<Rightarrow> Some err
      | None \<Rightarrow> Iter_sessions w sessions name)"

definition invalidateDbStateInAllSessions :: "'fs World \<Rightarrow> string \<Rightarrow> error option" where
  "invalidateDbStateInAllSessions w name =
     (case RemoveDbState_ctx w name of
        Some err \<Rightarrow> Some err
      | None \<Rightarrow>
         (case GetRunningServer w of
            None \<Rightarrow> None
          | Some sessions \<Rightarrow> Iter_sessions w sessions name))"

text \<open>
  The loop of \<open>DropDatabase\<close> over the map of databases:
  \<^verbatim>\<open>
  derivativeNamePrefix := strings.ToLower(dbKey + dsess.DbRevisionDelimiter)
  for dbName := range p.databases {
      if strings.HasPrefix(strings.ToLower(dbName), derivativeNamePrefix) {
          delete(p.databases, dbName)
      }
  }
  \<close>
  and \<open>DropDatabase\<close>: a revision database is refused; the storage is closed; the location
  is looked up under the key of the name; the directory to delete is the hidden directory
  when the database is the root of the provider, and else the directory of the database; the
  entries of the map are removed and the sessions invalidated. The type assertion
  \<open>db.(Database)\<close> panics for a value of another type, nil included.
\<close>

definition deleteDerivatives :: "string \<Rightarrow> (string \<rightharpoonup> SqlDatabase) \<Rightarrow> (string \<rightharpoonup> SqlDatabase)" where
  "deleteDerivatives dbKey dbs =
     (let derivativeNamePrefix = ToLower (dbKey @ DbRevisionDelimiter)
      in (\<lambda>dbName. if prefix derivativeNamePrefix (ToLower dbName) then None else dbs dbName))"

definition DropDatabase ::
  "nat \<Rightarrow> 'fs World \<Rightarrow> 'fs DoltDatabaseProvider \<Rightarrow> string \<Rightarrow>
     ('fs DoltDatabaseProvider \<times> error option) option" where
  "DropDatabase n w p name =
     (case isRevisionDatabase n w p name of
        None \<Rightarrow> None
      | Some (p, Inl err) \<Rightarrow> Some (p, Some err)
      | Some (p, Inr True) \<Rightarrow> Some (p, Some (Errorf (''unable to drop revision database: '' @ name)))
      | Some (p, Inr False) \<Rightarrow>
          let dbKey = formatDbMapKeyName name in
          (case databases p dbKey of
             Some (PlainDatabase db) \<Rightarrow>
               (case Close w (db_ddb db) of
                  Some err \<Rightarrow> Some (p, Some err)
                | None \<Rightarrow>
                   (case dbLocations p dbKey of
                      None \<Rightarrow> Some (p, Some (ErrDatabaseNotFound (db_name db)))
                    | Some dbLoc \<Rightarrow>
                       (case dbLoc of
                          Inl err \<Rightarrow> Some (p, Some err)
                        | Inr dropDbLoc \<Rightarrow>
                           (case DeleteFromSingletonCache w (dropDbLoc @ ''/.dolt/noms'') of
                              Some err \<Rightarrow> Some (p, Some err)
                            | None \<Rightarrow>
                               (case Abs w (fs p) of
                                  Inl err \<Rightarrow> Some (p, Some err)
                                | Inr rootDbLoc \<Rightarrow>
                                   (case (if rootDbLoc = dropDbLoc then
                                            (if \<not> fst (Exists w (fs p) DoltDir)
                                             then Inl (ErrDatabaseNotFound (db_name db))
                                             else Inr DoltDir)
                                          else
                                            (case Exists w (fs p) dropDbLoc of
                                               (exists, isDir) \<Rightarrow>
                                                 if \<not> exists then Inl (ErrDatabaseNotFound (db_name db))
                                                 else if \<not> isDir then
                                                   Inl (Errorf (''unexpected error: '' @ dbKey @
                                                     '' exists but is not a directory''))
                                                 else Inr dropDbLoc)) of
                                      Inl err \<Rightarrow> Some (p, Some err)
                                    | Inr dirToDelete \<Rightarrow>
                                       (case Delete w (fs p) dirToDelete True of
                                          (fs1, Some err) \<Rightarrow> Some (p\<lparr>fs := fs1\<rparr>, Some err)
                                        | (fs1, None) \<Rightarrow>
                                            Some (p\<lparr>fs := fs1,
                                                    databases :=
                                                      (deleteDerivatives dbKey (databases p))
                                                        (dbKey := None)\<rparr>,
                                                  invalidateDbStateInAllSessions w name))))))))
           | other \<Rightarrow>
               Some (p, Some (Panic ''interface conversion: dsess.SqlDatabase is not sqle.Database''))))"


section \<open>An example world\<close>

text \<open>
  A world for the closed examples. The file system is an association list from absolute
  paths to whether the path is a directory, a relative path resolved against \<open>/data\<close>; every
  collaborator succeeds. Every storage has the branch \<open>main\<close>, found without regard to case
  and reported as stored, the remote-tracking branch \<open>origin/dev\<close> and the tag \<open>v1\<close>; a
  branch has one commit, so its first ancestor is the last that exists. The remote
  \<open>file:///remotes/mydb\<close> can be cloned.
\<close>

type_synonym dirs = "(string \<times> bool) list"

definition resolve :: "string \<Rightarrow> string" where
  "resolve path = (if path \<noteq> [] \<and> hd path = CHR ''/'' then path else ''/data/'' @ path)"

definition world0 :: "dirs World" where
  "world0 = \<lparr>
     SplitAncestorSpec = (\<lambda>s. Inr (takeWhile (\<lambda>c. c \<noteq> CHR ''~'') s, dropWhile (\<lambda>c. c \<noteq> CHR ''~'') s)),
     GetRefByNameInsensitive = (\<lambda>ddb n. if ToLower n = ''main'' then Inr ''refs/heads/main''
                                  else Inl (ExternalError ''ref not found'')),
     ResolveCommitRef = (\<lambda>ddb r. Inr 1),
     GetAncestor = (\<lambda>cm a. if a = ''~1'' \<and> 0 < cm then Inr (cm - 1)
                      else Inl (ExternalError ''invalid ancestor spec'')),
     HashOf = (\<lambda>cm. Inr (replicate 32 (CHR ''0''))),
     HasBranch = (\<lambda>ddb n. Inr (if ToLower n = ''main'' then (''main'', True) else ([], False))),
     HasRemoteTrackingBranch = (\<lambda>ddb n. Inr (if n = ''origin/dev'' then (''origin/dev'', True)
                                  else ([], False))),
     HasTag = (\<lambda>ddb n. Inr (n = ''v1'')),
     IsValidCommitHash = (\<lambda>s. length s = 32 \<and>
                            list_all (\<lambda>c. c \<in> set ''0123456789abcdefghijklmnopqrstuv'') s),
     Close = (\<lambda>ddb. None),
     DeleteFromSingletonCache = (\<lambda>path. None),
     CreateLocalBranchFromRemote = (\<lambda>db branch. None),
     ReadReplicaRemote = [],
     ReplicationRemoteURLTemplate = [],
     ReplicateToRemote = [],
     GetSessionVariable = (\<lambda>v. Inr 1),
     Exists = (\<lambda>f path. case map_of f (resolve path) of None \<Rightarrow> (False, False) | Some d \<Rightarrow> (True, d)),
     Delete = (\<lambda>f path force. (AList.delete (resolve path) f, None)),
     Abs = (\<lambda>f. Inr ''/data''),
     GetRemoteDB = (\<lambda>remoteName url. if url = ''file:///remotes/mydb'' then Inr 7
                      else Inl (ExternalError ''remote not found'')),
     EnvForClone = (\<lambda>f srcDB remoteName url dbName. (AList.update (resolve dbName) True f, Inr 8)),
     CloneRemote = (\<lambda>f srcDB remoteName branch dEnv. (f, None)),
     UpdateBranch = (\<lambda>f dEnv remoteName. (f, None)),
     NewDatabase = (\<lambda>dbName dEnv. None),
     InitDatabaseHook = (\<lambda>f dbName dEnv. (f, None)),
     Prepare = (\<lambda>remoteName url dEnv. None),
     AddRemote = (\<lambda>f dEnv remoteName url. (f, None)),
     GetCommitHooks = (\<lambda>dEnv. None),
     ExecuteCommitHooks = (\<lambda>dEnv branch. None),
     RemoveDbState_ctx = (\<lambda>name. None),
     GetRunningServer = None,
     RemoveDbState = (\<lambda>i name. None)\<rparr>"

definition MyDb :: Database where
  "MyDb = \<lparr>db_name = ''MyDb'', db_ddb = 1, db_head = None, db_revision = [],
           db_revType = RevisionTypeNone\<rparr>"

definition provider0 :: "dirs DoltDatabaseProvider" where
  "provider0 = \<lparr>dbLocations = [''MyDb'' \<mapsto> Inr ''/data/MyDb''],
      databases = [''mydb'' \<mapsto> PlainDatabase MyDb],
      defaultBranch = ''main'', fs = [(''/data/MyDb'', True)], remoteDialer = True,
      isStandby = False, warnings = []\<rparr>"

text \<open>The unfolding rules that evaluate names and revisions in the examples.\<close>

lemmas names_eval = formatDbMapKeyName_def Contains_delimiter_def SplitN_2_def ToLower_def
  ToUpper_def toLower_def toUpper_def DbRevisionDelimiter_def

lemmas revision_eval = databaseForRevision_def revisionDbType_def resolveAncestorSpec_def
  isBranch_def isTag_def revisionDbForTag_def revisionDbForCommit_def revisionDb_def
  ensureReplicaHeadExists_def

section \<open>Classification of revisions\<close>

text \<open>
  What it means that a revision spec matches: a storage of the database has a local branch,
  a remote-tracking branch or a tag of that name. \<open>checksSucceed\<close>: none of the three
  checks returns an error on any storage of the database.
\<close>

definition matchesLocalBranch :: "'fs World \<Rightarrow> SqlDatabase \<Rightarrow> string \<Rightarrow> bool" where
  "matchesLocalBranch w db spec =
     (\<exists>ddb \<in> set (doltDbs db). \<exists>stored. HasBranch w ddb spec = Inr (stored, True))"

definition matchesRemoteBranch :: "'fs World \<Rightarrow> SqlDatabase \<Rightarrow> string \<Rightarrow> bool" where
  "matchesRemoteBranch w db spec =
     (\<exists>ddb \<in> set (doltDbs db). \<exists>stored. HasRemoteTrackingBranch w ddb spec = Inr (stored, True))"

definition matchesTag :: "'fs World \<Rightarrow> SqlDatabase \<Rightarrow> string \<Rightarrow> bool" where
  "matchesTag w db spec = (\<exists>ddb \<in> set (doltDbs db). HasTag w ddb spec = Inr True)"

definition checksSucceed :: "'fs World \<Rightarrow> SqlDatabase \<Rightarrow> string \<Rightarrow> bool" where
  "checksSucceed w db spec =
     list_all (\<lambda>ddb. \<not> isl (HasBranch w ddb spec) \<and> \<not> isl (HasRemoteTrackingBranch w ddb spec)
                 \<and> \<not> isl (HasTag w ddb spec)) (doltDbs db)"

lemma isLocalBranch_found:
  assumes "\<forall>ddb \<in> set ddbs. \<not> isl (HasBranch w ddb spec)"
    and "\<exists>ddb \<in> set ddbs. \<exists>stored. HasBranch w ddb spec = Inr (stored, True)"
  shows "\<exists>ddb \<in> set ddbs. \<exists>stored. HasBranch w ddb spec = Inr (stored, True) \<and>
           isLocalBranch w ddbs spec = Inr (stored, True)"
  using assms
proof (induction ddbs)
  case Nil
  then show ?case by simp
next
  case (Cons ddb ddbs)
  from Cons.prems(1) obtain stored b where h: "HasBranch w ddb spec = Inr (stored, b)"
    by (cases "HasBranch w ddb spec") auto
  show ?case
  proof (cases b)
    case True
    with h show ?thesis by auto
  next
    case False
    with h Cons.prems have "\<exists>ddb \<in> set ddbs. \<exists>stored. HasBranch w ddb spec = Inr (stored, True)"
      by auto
    with Cons.IH Cons.prems(1) have "\<exists>ddb \<in> set ddbs. \<exists>stored. HasBranch w ddb spec = Inr (stored, True) \<and>
           isLocalBranch w ddbs spec = Inr (stored, True)"
      by simp
    with h False show ?thesis by auto
  qed
qed

lemma isLocalBranch_none:
  assumes "\<forall>ddb \<in> set ddbs. \<not> isl (HasBranch w ddb spec)"
    and "\<not> (\<exists>ddb \<in> set ddbs. \<exists>stored. HasBranch w ddb spec = Inr (stored, True))"
  shows "isLocalBranch w ddbs spec = Inr ([], False)"
  using assms
proof (induction ddbs)
  case Nil
  then show ?case by simp
next
  case (Cons ddb ddbs)
  from Cons.prems(1) obtain stored b where h: "HasBranch w ddb spec = Inr (stored, b)"
    by (cases "HasBranch w ddb spec") auto
  with Cons.prems(2) have "\<not> b" by auto
  with h Cons show ?case by auto
qed

lemma isRemoteBranch_found:
  assumes "\<forall>ddb \<in> set ddbs. \<not> isl (HasRemoteTrackingBranch w ddb spec)"
    and "\<exists>ddb \<in> set ddbs. \<exists>stored. HasRemoteTrackingBranch w ddb spec = Inr (stored, True)"
  shows "\<exists>ddb \<in> set ddbs. \<exists>stored. HasRemoteTrackingBranch w ddb spec = Inr (stored, True) \<and>
           isRemoteBranch w ddbs spec = Inr (stored, True)"
  using assms
proof (induction ddbs)
  case Nil
  then show ?case by simp
next
  case (Cons ddb ddbs)
  from Cons.prems(1) obtain stored b where h: "HasRemoteTrackingBranch w ddb spec = Inr (stored, b)"
    by (cases "HasRemoteTrackingBranch w ddb spec") auto
  show ?case
  proof (cases b)
    case True
    with h show ?thesis by auto
  next
    case False
    with h Cons.prems have "\<exists>ddb \<in> set ddbs. \<exists>stored. HasRemoteTrackingBranch w ddb spec = Inr (stored, True)"
      by auto
    with Cons.IH Cons.prems(1) have "\<exists>ddb \<in> set ddbs. \<exists>stored. HasRemoteTrackingBranch w ddb spec = Inr (stored, True) \<and>
           isRemoteBranch w ddbs spec = Inr (stored, True)"
      by simp
    with h False show ?thesis by auto
  qed
qed

lemma isRemoteBranch_none:
  assumes "\<forall>ddb \<in> set ddbs. \<not> isl (HasRemoteTrackingBranch w ddb spec)"
    and "\<not> (\<exists>ddb \<in> set ddbs. \<exists>stored. HasRemoteTrackingBranch w ddb spec = Inr (stored, True))"
  shows "isRemoteBranch w ddbs spec = Inr ([], False)"
  using assms
proof (induction ddbs)
  case Nil
  then show ?case by simp
next
  case (Cons ddb ddbs)
  from Cons.prems(1) obtain stored b where h: "HasRemoteTrackingBranch w ddb spec = Inr (stored, b)"
    by (cases "HasRemoteTrackingBranch w ddb spec") auto
  with Cons.prems(2) have "\<not> b" by auto
  with h Cons show ?case by auto
qed

lemma isTag_loop_result:
  assumes "\<forall>ddb \<in> set ddbs. \<not> isl (HasTag w ddb spec)"
  shows "isTag_loop w ddbs spec = Inr (\<exists>ddb \<in> set ddbs. HasTag w ddb spec = Inr True)"
  using assms
proof (induction ddbs)
  case Nil
  then show ?case by simp
next
  case (Cons ddb ddbs)
  from Cons.prems obtain b where h: "HasTag w ddb spec = Inr b"
    by (cases "HasTag w ddb spec") auto
  with Cons show ?case by auto
qed

lemma checksSucceedD:
  assumes "checksSucceed w db spec"
  shows "\<forall>ddb \<in> set (doltDbs db). \<not> isl (HasBranch w ddb spec)"
    and "\<forall>ddb \<in> set (doltDbs db). \<not> isl (HasRemoteTrackingBranch w ddb spec)"
    and "\<forall>ddb \<in> set (doltDbs db). \<not> isl (HasTag w ddb spec)"
  using assms by (auto simp: checksSucceed_def list_all_iff)

lemma isBranch_local:
  assumes "checksSucceed w db spec" "matchesLocalBranch w db spec"
  shows "\<exists>ddb \<in> set (doltDbs db). \<exists>stored. HasBranch w ddb spec = Inr (stored, True) \<and>
           isBranch w db spec = Inr (stored, True)"
proof -
  from isLocalBranch_found [OF checksSucceedD(1) [OF assms(1)]] assms(2)
  obtain ddb stored where "ddb \<in> set (doltDbs db)" "HasBranch w ddb spec = Inr (stored, True)"
    "isLocalBranch w (doltDbs db) spec = Inr (stored, True)"
    unfolding matchesLocalBranch_def by blast
  then show ?thesis by (auto simp: isBranch_def)
qed

lemma isBranch_remote:
  assumes "checksSucceed w db spec" "\<not> matchesLocalBranch w db spec" "matchesRemoteBranch w db spec"
  shows "\<exists>ddb \<in> set (doltDbs db). \<exists>stored. HasRemoteTrackingBranch w ddb spec = Inr (stored, True) \<and>
           isBranch w db spec = Inr (stored, True)"
proof -
  have l: "isLocalBranch w (doltDbs db) spec = Inr ([], False)"
    using isLocalBranch_none [OF checksSucceedD(1) [OF assms(1)]] assms(2)
    unfolding matchesLocalBranch_def by blast
  from isRemoteBranch_found [OF checksSucceedD(2) [OF assms(1)]] assms(3)
  obtain ddb stored where "ddb \<in> set (doltDbs db)"
    "HasRemoteTrackingBranch w ddb spec = Inr (stored, True)"
    "isRemoteBranch w (doltDbs db) spec = Inr (stored, True)"
    unfolding matchesRemoteBranch_def by blast
  with l show ?thesis by (auto simp: isBranch_def)
qed

lemma isBranch_none:
  assumes "checksSucceed w db spec" "\<not> matchesLocalBranch w db spec" "\<not> matchesRemoteBranch w db spec"
  shows "isBranch w db spec = Inr ([], False)"
proof -
  have l: "isLocalBranch w (doltDbs db) spec = Inr ([], False)"
    using isLocalBranch_none [OF checksSucceedD(1) [OF assms(1)]] assms(2)
    unfolding matchesLocalBranch_def by blast
  have r: "isRemoteBranch w (doltDbs db) spec = Inr ([], False)"
    using isRemoteBranch_none [OF checksSucceedD(2) [OF assms(1)]] assms(3)
    unfolding matchesRemoteBranch_def by blast
  from l r show ?thesis by (simp add: isBranch_def)
qed

lemma isTag_result:
  assumes "checksSucceed w db spec"
  shows "isTag w db spec = Inr (matchesTag w db spec)"
  using isTag_loop_result [OF checksSucceedD(3) [OF assms]]
  by (simp add: isTag_def matchesTag_def)

text \<open>
  Claim C2: for every source database and every revision spec, once its ancestor part is
  resolved (to \<open>spec\<close>), the classification follows a fixed precedence: a spec that matches
  a local branch is a branch, under the name as stored; else one that matches a
  remote-tracking branch is a branch; else one that matches a tag is a tag; else one that is
  a valid commit hash is a commit; else it has type none, and that is not an error. The
  checks of the storage are taken to succeed: their errors are returned as they are.
\<close>

theorem revisionDbType_precedence:
  assumes "resolveAncestorSpec w revSpec (db_ddb (embedded srcDb)) = Inr spec"
    and "checksSucceed w srcDb spec"
  shows "(matchesLocalBranch w srcDb spec \<longrightarrow>
            (\<exists>ddb \<in> set (doltDbs srcDb). \<exists>stored. HasBranch w ddb spec = Inr (stored, True) \<and>
               revisionDbType w srcDb revSpec = Inr (RevisionTypeBranch, stored)))
       \<and> (\<not> matchesLocalBranch w srcDb spec \<and> matchesRemoteBranch w srcDb spec \<longrightarrow>
            (\<exists>ddb \<in> set (doltDbs srcDb). \<exists>stored.
               HasRemoteTrackingBranch w ddb spec = Inr (stored, True) \<and>
               revisionDbType w srcDb revSpec = Inr (RevisionTypeBranch, stored)))
       \<and> (\<not> matchesLocalBranch w srcDb spec \<and> \<not> matchesRemoteBranch w srcDb spec \<and>
            matchesTag w srcDb spec \<longrightarrow>
            revisionDbType w srcDb revSpec = Inr (RevisionTypeTag, spec))
       \<and> (\<not> matchesLocalBranch w srcDb spec \<and> \<not> matchesRemoteBranch w srcDb spec \<and>
            \<not> matchesTag w srcDb spec \<and> IsValidCommitHash w spec \<longrightarrow>
            revisionDbType w srcDb revSpec = Inr (RevisionTypeCommit, spec))
       \<and> (\<not> matchesLocalBranch w srcDb spec \<and> \<not> matchesRemoteBranch w srcDb spec \<and>
            \<not> matchesTag w srcDb spec \<and> \<not> IsValidCommitHash w spec \<longrightarrow>
            revisionDbType w srcDb revSpec = Inr (RevisionTypeNone, []))"
proof (intro conjI impI)
  assume "matchesLocalBranch w srcDb spec"
  from isBranch_local [OF assms(2) this]
  show "\<exists>ddb \<in> set (doltDbs srcDb). \<exists>stored. HasBranch w ddb spec = Inr (stored, True) \<and>
               revisionDbType w srcDb revSpec = Inr (RevisionTypeBranch, stored)"
    using assms(1) by (auto simp: revisionDbType_def)
next
  assume "\<not> matchesLocalBranch w srcDb spec \<and> matchesRemoteBranch w srcDb spec"
  then have "\<exists>ddb \<in> set (doltDbs srcDb). \<exists>stored.
      HasRemoteTrackingBranch w ddb spec = Inr (stored, True) \<and>
      isBranch w srcDb spec = Inr (stored, True)"
    using isBranch_remote [OF assms(2)] by blast
  then show "\<exists>ddb \<in> set (doltDbs srcDb). \<exists>stored.
               HasRemoteTrackingBranch w ddb spec = Inr (stored, True) \<and>
               revisionDbType w srcDb revSpec = Inr (RevisionTypeBranch, stored)"
    using assms(1) by (auto simp: revisionDbType_def)
next
  assume "\<not> matchesLocalBranch w srcDb spec \<and> \<not> matchesRemoteBranch w srcDb spec \<and>
            matchesTag w srcDb spec"
  then show "revisionDbType w srcDb revSpec = Inr (RevisionTypeTag, spec)"
    using assms(1) isBranch_none [OF assms(2)] isTag_result [OF assms(2)]
    by (simp add: revisionDbType_def)
next
  assume "\<not> matchesLocalBranch w srcDb spec \<and> \<not> matchesRemoteBranch w srcDb spec \<and>
            \<not> matchesTag w srcDb spec \<and> IsValidCommitHash w spec"
  then show "revisionDbType w srcDb revSpec = Inr (RevisionTypeCommit, spec)"
    using assms(1) isBranch_none [OF assms(2)] isTag_result [OF assms(2)]
    by (simp add: revisionDbType_def)
next
  assume "\<not> matchesLocalBranch w srcDb spec \<and> \<not> matchesRemoteBranch w srcDb spec \<and>
            \<not> matchesTag w srcDb spec \<and> \<not> IsValidCommitHash w spec"
  then show "revisionDbType w srcDb revSpec = Inr (RevisionTypeNone, [])"
    using assms(1) isBranch_none [OF assms(2)] isTag_result [OF assms(2)]
    by (simp add: revisionDbType_def)
qed

lemma world0_ToLower_MAIN: "ToLower ''MAIN'' = ''main''"
  by (simp add: ToLower_def toLower_def)

theorem revisionDbType_precedence_witness:
  "resolveAncestorSpec world0 ''MAIN'' (db_ddb (embedded (PlainDatabase MyDb))) = Inr ''MAIN''
   \<and> checksSucceed world0 (PlainDatabase MyDb) ''MAIN''
   \<and> matchesLocalBranch world0 (PlainDatabase MyDb) ''MAIN''
   \<and> revisionDbType world0 (PlainDatabase MyDb) ''MAIN'' = Inr (RevisionTypeBranch, ''main'')"
proof -
  have r: "resolveAncestorSpec world0 ''MAIN'' (db_ddb (embedded (PlainDatabase MyDb))) = Inr ''MAIN''"
    by (simp add: resolveAncestorSpec_def world0_def)
  have c: "checksSucceed world0 (PlainDatabase MyDb) ''MAIN''"
    by (simp add: checksSucceed_def world0_def)
  have m: "matchesLocalBranch world0 (PlainDatabase MyDb) ''MAIN''"
    by (simp add: matchesLocalBranch_def world0_def world0_ToLower_MAIN)
  from revisionDbType_precedence [OF r c] m
  obtain stored where "HasBranch world0 (db_ddb MyDb) ''MAIN'' = Inr (stored, True)"
    "revisionDbType world0 (PlainDatabase MyDb) ''MAIN'' = Inr (RevisionTypeBranch, stored)"
    by auto
  then have "revisionDbType world0 (PlainDatabase MyDb) ''MAIN'' = Inr (RevisionTypeBranch, ''main'')"
    by (simp add: world0_def world0_ToLower_MAIN)
  with r c m show ?thesis by simp
qed

section \<open>A world with read replication\<close>

text \<open>
  The example world with read replication set up: the remote \<open>origin\<close> and a template of its
  address. A provider with no database, and the provider it becomes by the clone of \<open>mydb\<close>:
  the first clone of \<open>mydb\<close> succeeds, a second one finds the directory and fails.
\<close>

definition world_replica :: "dirs World" where
  "world_replica = world0\<lparr>ReadReplicaRemote := ''origin'',
     ReplicationRemoteURLTemplate := ''file:///remotes/{database}''\<rparr>"

definition provider_empty :: "dirs DoltDatabaseProvider" where
  "provider_empty = \<lparr>dbLocations = Map.empty, databases = Map.empty,
      defaultBranch = ''main'', fs = [], remoteDialer = True, isStandby = False, warnings = []\<rparr>"

definition provider_cloned :: "dirs DoltDatabaseProvider" where
  "provider_cloned = provider_empty\<lparr>fs := [(''/data/mydb'', True)],
        databases := [''mydb'' \<mapsto> PlainDatabase \<lparr>db_name = ''mydb'', db_ddb = 8, db_head = None,
          db_revision = [], db_revType = RevisionTypeNone\<rparr>]\<rparr>"

lemma Replace_ghost:
  "Replace ''file:///remotes/{database}'' URLTemplateDatabasePlaceholder ''ghost''
     = ''file:///remotes/ghost''"
  by (simp add: Replace.simps URLTemplateDatabasePlaceholder_def)

lemma Replace_mydb:
  "Replace ''file:///remotes/{database}'' URLTemplateDatabasePlaceholder ''mydb''
     = ''file:///remotes/mydb''"
  by (simp add: Replace.simps URLTemplateDatabasePlaceholder_def)

lemma attemptCloneReplica_mydb:
  "attemptCloneReplica world_replica provider_empty ''mydb'' = (provider_cloned, None)"
  unfolding attemptCloneReplica_def world_replica_def provider_cloned_def
  by (simp add: Replace_mydb Let_def)
    (simp add: CloneDatabaseFromRemote_def cloneDatabaseFromRemote_def world0_def
      provider_empty_def resolve_def ConfigureReplicationDatabaseHook_def Name_def names_eval)

lemma attemptCloneReplica_again:
  "attemptCloneReplica world_replica provider_cloned ''mydb'' =
     (provider_cloned, Some (ErrDatabaseExists ''mydb''))"
  unfolding attemptCloneReplica_def world_replica_def
  by (simp add: Replace_mydb Let_def)
    (simp add: CloneDatabaseFromRemote_def world0_def provider_cloned_def resolve_def)

lemma databaseForRevision_nosuch:
  "databaseForRevision world_replica provider_cloned ''mydb/nosuch'' = Inr (None, False)"
  by (simp add: names_eval revision_eval provider_cloned_def world_replica_def world0_def)

section \<open>Lookup keys\<close>

lemma toLower_toUpper: "toLower (toUpper c) = toLower c"
  by (simp add: toLower_def toUpper_def)

lemma toLower_idem: "toLower (toLower c) = toLower c"
  by (simp add: toLower_def)

lemma toLower_slash: "toLower c = CHR ''/'' \<longleftrightarrow> c = CHR ''/''"
  by (simp add: toLower_def)

lemma toUpper_slash: "toUpper c = CHR ''/'' \<longleftrightarrow> c = CHR ''/''"
  by (simp add: toUpper_def)

lemma ToLower_ToUpper: "ToLower (ToUpper s) = ToLower s"
  by (simp add: ToLower_def ToUpper_def toLower_toUpper)

lemma ToLower_idem: "ToLower (ToLower s) = ToLower s"
  by (simp add: ToLower_def toLower_idem)

lemma ToLower_append: "ToLower (s @ t) = ToLower s @ ToLower t"
  by (simp add: ToLower_def)

lemma slash_ToLower: "CHR ''/'' \<in> set (ToLower s) \<longleftrightarrow> CHR ''/'' \<in> set s"
proof (induction s)
  case Nil
  show ?case by (simp add: ToLower_def)
next
  case (Cons a s)
  have "CHR ''/'' = toLower a \<longleftrightarrow> CHR ''/'' = a"
    unfolding eq_commute [of "CHR ''/''"] by (rule toLower_slash)
  with Cons show ?case by (simp add: ToLower_def)
qed

lemma slash_ToUpper: "CHR ''/'' \<in> set (ToUpper s) \<longleftrightarrow> CHR ''/'' \<in> set s"
proof (induction s)
  case Nil
  show ?case by (simp add: ToUpper_def)
next
  case (Cons a s)
  have "CHR ''/'' = toUpper a \<longleftrightarrow> CHR ''/'' = a"
    unfolding eq_commute [of "CHR ''/''"] by (rule toUpper_slash)
  with Cons show ?case by (simp add: ToUpper_def)
qed

lemma SplitN_2_append:
  "CHR ''/'' \<notin> set D \<Longrightarrow> SplitN_2 (D @ DbRevisionDelimiter @ R) = (D, R)"
  by (simp add: SplitN_2_def DbRevisionDelimiter_def takeWhile_append dropWhile_append)

lemma Contains_delimiter_append: "Contains_delimiter (D @ DbRevisionDelimiter @ R)"
  by (simp add: Contains_delimiter_def DbRevisionDelimiter_def)

lemma formatDbMapKeyName_append:
  "CHR ''/'' \<notin> set D \<Longrightarrow>
   formatDbMapKeyName (D @ DbRevisionDelimiter @ R) = ToLower D @ DbRevisionDelimiter @ R"
  by (simp add: formatDbMapKeyName_def Contains_delimiter_append SplitN_2_append)

lemma formatDbMapKeyName_base:
  "CHR ''/'' \<notin> set D \<Longrightarrow> formatDbMapKeyName D = ToLower D"
  by (simp add: formatDbMapKeyName_def Contains_delimiter_def)

lemma databaseForRevision_append:
  assumes "CHR ''/'' \<notin> set D" "CHR ''/'' \<notin> set D'" "ToLower D = ToLower D'"
  shows "databaseForRevision w p (D @ DbRevisionDelimiter @ R) =
         databaseForRevision w p (D' @ DbRevisionDelimiter @ R)"
proof -
  have k: "formatDbMapKeyName D = formatDbMapKeyName D'"
    using assms by (simp add: formatDbMapKeyName_base)
  have nf: "revisionDbForBranch srcDb s \<noteq> (db, Some e)" for srcDb s db e
    by (cases srcDb) auto
  show ?thesis
    unfolding databaseForRevision_def
    using assms(1,2) k
    by (simp add: Contains_delimiter_append SplitN_2_append revisionDbForTag_def
        revisionDbForCommit_def nf
        split: option.splits sum.splits prod.splits RevisionType.splits error.splits)
qed

text \<open>
  Claim C3, as stated: the lower-case and the upper-case form of a base name, followed by
  the delimiter and a revision spec, look up the same database, and two revision specs that
  differ as strings are distinct lookups. With read replication the lookup clones the
  database under the name as typed: \<open>mydb/main\<close> is cloned and found, \<open>MYDB/main\<close> has no
  remote and is not found. And the storage finds a branch without regard to case: the
  lookups of \<open>mydb/main\<close> and \<open>mydb/MAIN\<close> give the same database.
\<close>

theorem lookup_case_counterexample:
  "SessionDatabase 2 world_replica provider_empty ''mydb/main'' =
     Some (provider_cloned,
       Inr (Some (PlainDatabase \<lparr>db_name = ''mydb/main'', db_ddb = 8, db_head = Some ''main'',
         db_revision = ''main'', db_revType = RevisionTypeBranch\<rparr>), True))
   \<and> SessionDatabase 2 world_replica provider_empty ''MYDB/main'' =
     Some (Warnf ''couldn't clone database MYDB: remote not found'' provider_empty,
       Inr (None, False))
   \<and> ''main'' \<noteq> ''MAIN''
   \<and> SessionDatabase 1 world0 provider0 ''mydb/main'' =
       SessionDatabase 1 world0 provider0 ''mydb/MAIN''"
proof -
  have active: "readReplicationActive world_replica"
    by (simp add: readReplicationActive_def world_replica_def world0_def)
  have two: "(2::nat) = Suc (Suc 0)"
    by simp
  have lower: "formatDbMapKeyName ''mydb/main'' = ''mydb/main''"
    "Contains_delimiter ''mydb/main''" "fst (SplitN_2 ''mydb/main'') = ''mydb''"
    by (simp_all add: names_eval)
  have upper: "formatDbMapKeyName ''MYDB/main'' = ''mydb/main''"
    "Contains_delimiter ''MYDB/main''" "fst (SplitN_2 ''MYDB/main'') = ''MYDB''"
    by (simp_all add: names_eval)
  have unregistered: "databases provider_cloned ''mydb/main'' = None"
    "databases provider_empty ''mydb/main'' = None"
    by (simp_all add: provider_cloned_def provider_empty_def)
  have empty: "databaseForRevision world_replica provider_empty ''mydb/main'' = Inr (None, False)"
    "databaseForRevision world_replica provider_empty ''MYDB/main'' = Inr (None, False)"
    by (simp_all add: databaseForRevision_def names_eval provider_empty_def)
  have cloned: "databaseForRevision world_replica provider_cloned ''mydb/main'' =
      Inr (Some (PlainDatabase \<lparr>db_name = ''mydb/main'', db_ddb = 8, db_head = Some ''main'',
         db_revision = ''main'', db_revType = RevisionTypeBranch\<rparr>), True)"
    by (simp add: names_eval revision_eval provider_cloned_def provider_empty_def
        world_replica_def world0_def)
  have standby: "\<not> isStandby provider_cloned" "\<not> isStandby provider_empty"
    by (simp_all add: provider_cloned_def provider_empty_def)
  have retry: "SessionDatabase (Suc 0) world_replica provider_cloned ''mydb/main'' =
      Some (provider_cloned,
        Inr (Some (PlainDatabase \<lparr>db_name = ''mydb/main'', db_ddb = 8, db_head = Some ''main'',
          db_revision = ''main'', db_revType = RevisionTypeBranch\<rparr>), True))"
    using standby by (simp add: SessionDatabase.simps lower cloned unregistered)
  have a: "SessionDatabase 2 world_replica provider_empty ''mydb/main'' =
     Some (provider_cloned,
       Inr (Some (PlainDatabase \<lparr>db_name = ''mydb/main'', db_ddb = 8, db_head = Some ''main'',
         db_revision = ''main'', db_revType = RevisionTypeBranch\<rparr>), True))"
    unfolding two using active standby
    by (simp add: SessionDatabase.simps(2) [of "Suc 0"] databaseForClone.simps [of "Suc 0"]
        Database_lookup.simps [of "Suc 0"] lower empty attemptCloneReplica_mydb retry
        unregistered)
  have remote: "attemptCloneReplica world_replica provider_empty ''MYDB'' =
      (provider_empty, Some (ExternalError ''remote not found''))"
    unfolding attemptCloneReplica_def world_replica_def
    by (simp add: Replace.simps URLTemplateDatabasePlaceholder_def Let_def)
      (simp add: CloneDatabaseFromRemote_def cloneDatabaseFromRemote_def world0_def
        provider_empty_def resolve_def)
  have b: "SessionDatabase 2 world_replica provider_empty ''MYDB/main'' =
     Some (Warnf ''couldn't clone database MYDB: remote not found'' provider_empty,
       Inr (None, False))"
    unfolding two using active standby
    by (simp add: SessionDatabase.simps(2) [of "Suc 0"] databaseForClone.simps [of "Suc 0"]
        upper empty remote unregistered)
  have c: "SessionDatabase 1 world0 provider0 ''mydb/main'' =
       SessionDatabase 1 world0 provider0 ''mydb/MAIN''"
    by (simp add: SessionDatabase.simps names_eval revision_eval provider0_def world0_def MyDb_def)
  from a b c show ?thesis by simp
qed
text \<open>
  Claim C3, amended: for every ASCII base name \<open>D\<close> without the delimiter and every revision
  spec \<open>R\<close>, the key of a lookup has the base name in lower case and the revision spec as
  typed: the lower-case and the upper-case form of \<open>D\<close>, alone or followed by the delimiter
  and \<open>R\<close>, give the same key and the same database of the revision, and, where read
  replication is not set up (no clone is attempted), the same result of \<open>SessionDatabase\<close>;
  and the keys of \<open>D\<close> with two revision specs that differ as strings differ.
\<close>

theorem lookup_keys_case:
  assumes "CHR ''/'' \<notin> set D"
    and "isASCII D"
  shows "formatDbMapKeyName (ToLower D) = formatDbMapKeyName (ToUpper D)
     \<and> formatDbMapKeyName (ToLower D @ DbRevisionDelimiter @ R) =
         formatDbMapKeyName (ToUpper D @ DbRevisionDelimiter @ R)
     \<and> databaseForRevision w p (ToLower D @ DbRevisionDelimiter @ R) =
         databaseForRevision w p (ToUpper D @ DbRevisionDelimiter @ R)
     \<and> (\<not> readReplicationActive w \<longrightarrow>
          SessionDatabase n w p (ToLower D @ DbRevisionDelimiter @ R) =
          SessionDatabase n w p (ToUpper D @ DbRevisionDelimiter @ R))
     \<and> (R1 \<noteq> R2 \<longrightarrow>
          formatDbMapKeyName (D @ DbRevisionDelimiter @ R1) \<noteq>
          formatDbMapKeyName (D @ DbRevisionDelimiter @ R2))"
proof -
  have l: "CHR ''/'' \<notin> set (ToLower D)" and u: "CHR ''/'' \<notin> set (ToUpper D)"
    using assms(1) by (simp_all add: slash_ToLower slash_ToUpper)
  have a: "formatDbMapKeyName (ToLower D) = formatDbMapKeyName (ToUpper D)"
    using l u by (simp add: formatDbMapKeyName_base ToLower_idem ToLower_ToUpper)
  have b: "formatDbMapKeyName (ToLower D @ DbRevisionDelimiter @ R) =
         formatDbMapKeyName (ToUpper D @ DbRevisionDelimiter @ R)"
    using l u by (simp add: formatDbMapKeyName_append ToLower_idem ToLower_ToUpper)
  have c: "databaseForRevision w p (ToLower D @ DbRevisionDelimiter @ R) =
         databaseForRevision w p (ToUpper D @ DbRevisionDelimiter @ R)"
    using l u by (intro databaseForRevision_append) (simp_all add: ToLower_idem ToLower_ToUpper)
  have d: "SessionDatabase n w p (ToLower D @ DbRevisionDelimiter @ R) =
          SessionDatabase n w p (ToUpper D @ DbRevisionDelimiter @ R)"
    if "\<not> readReplicationActive w"
  proof (cases n)
    case 0
    then show ?thesis by simp
  next
    case (Suc m)
    show ?thesis
      unfolding Suc SessionDatabase_inactive [OF that] b c ..
  qed
  have e: "formatDbMapKeyName (D @ DbRevisionDelimiter @ R1) \<noteq>
          formatDbMapKeyName (D @ DbRevisionDelimiter @ R2)" if "R1 \<noteq> R2"
    using assms(1) that by (simp add: formatDbMapKeyName_append)
  from a b c d e show ?thesis by blast
qed

theorem lookup_keys_case_witness:
  "CHR ''/'' \<notin> set ''MyDb'' \<and> isASCII ''MyDb''
   \<and> formatDbMapKeyName ''mydb/main'' = ''mydb/main''
   \<and> formatDbMapKeyName ''MYDB/main'' = ''mydb/main''
   \<and> formatDbMapKeyName ''MyDb/Main'' = ''mydb/Main''
   \<and> SessionDatabase 1 world0 provider0 ''MYDB/main'' =
       SessionDatabase 1 world0 provider0 ''mydb/main''"
proof -
  have h: "CHR ''/'' \<notin> set ''MyDb''"
    by simp
  have asc: "isASCII ''MyDb''"
    by (simp add: isASCII_def)
  have i: "\<not> readReplicationActive world0"
    by (simp add: readReplicationActive_def world0_def)
  have n: "''main'' \<noteq> ''Main''"
    by simp
  from lookup_keys_case [OF h asc, where R = "''main''" and w = world0 and p = provider0
      and n = 1 and ?R1.0 = "''main''" and ?R2.0 = "''Main''"] i n
  have "formatDbMapKeyName (ToLower ''MyDb'' @ DbRevisionDelimiter @ ''main'') =
         formatDbMapKeyName (ToUpper ''MyDb'' @ DbRevisionDelimiter @ ''main'')"
    and "SessionDatabase 1 world0 provider0 (ToLower ''MyDb'' @ DbRevisionDelimiter @ ''main'') =
         SessionDatabase 1 world0 provider0 (ToUpper ''MyDb'' @ DbRevisionDelimiter @ ''main'')"
    and "formatDbMapKeyName (''MyDb'' @ DbRevisionDelimiter @ ''main'') \<noteq>
         formatDbMapKeyName (''MyDb'' @ DbRevisionDelimiter @ ''Main'')"
    by blast+
  moreover have "ToLower ''MyDb'' @ DbRevisionDelimiter @ ''main'' = ''mydb/main''"
    "ToUpper ''MyDb'' @ DbRevisionDelimiter @ ''main'' = ''MYDB/main''"
    by (simp_all add: names_eval)
  moreover have "formatDbMapKeyName ''mydb/main'' = ''mydb/main''"
    "formatDbMapKeyName ''MyDb/Main'' = ''mydb/Main''"
    by (simp_all add: names_eval)
  ultimately show ?thesis using asc by simp
qed

text \<open>
  The keys of two revision specs that differ only in case differ, but the storage finds a
  branch without regard to case and gives the name as stored: both lookups make the database
  of the branch \<open>main\<close>.
\<close>

lemma SessionDatabase_branch_case:
  "SessionDatabase 1 world0 provider0 ''mydb/MAIN'' =
     Some (provider0, Inr (Some (PlainDatabase
       \<lparr>db_name = ''MyDb/main'', db_ddb = 1, db_head = Some ''main'',
        db_revision = ''main'', db_revType = RevisionTypeBranch\<rparr>), True))"
  by (simp add: SessionDatabase.simps names_eval revision_eval provider0_def world0_def MyDb_def)

section \<open>Standby\<close>

text \<open>
  What a lookup returns was made by \<open>wrapForStandby\<close> from the database found, and a
  registered database is found at once.
\<close>

lemma wrapForStandby_not_plain: "wrapForStandby db True \<noteq> Some (PlainDatabase d)"
  by (cases "(db, True)" rule: wrapForStandby.cases) auto

lemma SessionDatabase_found_wrapped:
  assumes "SessionDatabase n w p name = Some (p', Inr (db, True))"
  shows "\<exists>db0. db = wrapForStandby db0 (isStandby p)"
proof (cases n)
  case 0
  with assms show ?thesis by simp
next
  case (Suc m)
  with assms show ?thesis
    by (auto simp: SessionDatabase.simps Let_def
        split: option.splits sum.splits prod.splits if_splits)
qed

lemma SessionDatabase_registered:
  "databases p (formatDbMapKeyName name) = Some db \<Longrightarrow>
   SessionDatabase (Suc n) w p name = Some (p, Inr (wrapForStandby (Some db) (isStandby p), True))"
  by (simp add: SessionDatabase.simps)

text \<open>
  A provider whose only database is a read replica, of the remote storage \<open>7\<close>.
\<close>

definition replica :: Database where
  "replica = \<lparr>db_name = ''replica'', db_ddb = 2, db_head = None, db_revision = [],
              db_revType = RevisionTypeNone\<rparr>"

definition provider_replica :: "dirs DoltDatabaseProvider" where
  "provider_replica = provider0\<lparr>databases := [''replica'' \<mapsto> ReadReplicaDatabase replica 7]\<rparr>"

text \<open>
  In standby a \<open>ReadReplicaDatabase\<close> is neither a \<open>ReadOnlyDatabase\<close> nor a \<open>Database\<close>
  and is returned as it is stored. (Whether a read replica accepts writes is not decided by
  the files modelled.)
\<close>

lemma standby_replica_as_stored:
  "SessionDatabase 1 world0 (SetIsStandby True provider_replica) ''replica'' =
     Some (SetIsStandby True provider_replica, Inr (Some (ReadReplicaDatabase replica 7), True))"
  by (simp add: SessionDatabase.simps SetIsStandby_def provider_replica_def provider0_def
      names_eval)

text \<open>
  What \<open>SessionDatabase\<close> does in standby: \<open>wrapForStandby\<close> makes a \<open>ReadOnlyDatabase\<close> of
  a \<open>Database\<close>, so that no lookup by name returns a plain \<open>Database\<close>; \<open>SetIsStandby\<close>
  changes neither the databases nor the locations stored; setting it and clearing it again
  gives the provider with standby cleared; and a registered database is returned wrapped
  while standby is set and as stored once it is cleared.
\<close>

lemma standby_wrapping:
  "wrapForStandby (Some (PlainDatabase d)) True = Some (ReadOnlyDatabase d)
   \<and> wrapForStandby (Some (ReadOnlyDatabase d)) True = Some (ReadOnlyDatabase d)
   \<and> wrapForStandby (Some (ReadReplicaDatabase d srcDB)) True = Some (ReadReplicaDatabase d srcDB)
   \<and> wrapForStandby db False = db
   \<and> (isStandby p \<and> SessionDatabase n w p name = Some (p', Inr (Some db', True)) \<longrightarrow>
        (\<forall>d'. db' \<noteq> PlainDatabase d'))
   \<and> databases (SetIsStandby standby p) = databases p
   \<and> dbLocations (SetIsStandby standby p) = dbLocations p
   \<and> SetIsStandby False (SetIsStandby True p) = SetIsStandby False p
   \<and> (\<not> isStandby p \<longrightarrow> SetIsStandby False (SetIsStandby True p) = p)
   \<and> (databases p (formatDbMapKeyName name) = Some stored \<longrightarrow>
        SessionDatabase (Suc n) w (SetIsStandby True p) name =
          Some (SetIsStandby True p, Inr (wrapForStandby (Some stored) True, True)) \<and>
        SessionDatabase (Suc n) w (SetIsStandby False (SetIsStandby True p)) name =
          Some (SetIsStandby False p, Inr (Some stored, True)))"
proof -
  have a: "isStandby p \<and> SessionDatabase n w p name = Some (p', Inr (Some db', True)) \<longrightarrow>
        (\<forall>d'. db' \<noteq> PlainDatabase d')"
    using SessionDatabase_found_wrapped [of n w p name p' "Some db'"] wrapForStandby_not_plain
    by metis
  have b: "\<not> isStandby p \<longrightarrow> SetIsStandby False (SetIsStandby True p) = p"
    by (cases p) (simp add: SetIsStandby_def)
  have c: "databases p (formatDbMapKeyName name) = Some stored \<longrightarrow>
        SessionDatabase (Suc n) w (SetIsStandby True p) name =
          Some (SetIsStandby True p, Inr (wrapForStandby (Some stored) True, True)) \<and>
        SessionDatabase (Suc n) w (SetIsStandby False (SetIsStandby True p)) name =
          Some (SetIsStandby False p, Inr (Some stored, True))"
    by (simp add: SessionDatabase_registered SetIsStandby_def)
  show ?thesis
    using a b c by (simp add: SetIsStandby_def)
qed

text \<open>
  \<open>DoltDatabases\<close> does not read the standby flag.
\<close>

lemma DoltDatabases_standby:
  "DoltDatabases (SetIsStandby standby p) keys = DoltDatabases p keys"
  by (simp add: DoltDatabases_def SetIsStandby_def)

text \<open>
  Claim C6: while standby is set, every database that a lookup returns and that is not
  read-only already is wrapped to reject writes. The comment of \<open>SetIsStandby\<close> says the
  same: \<^emph>\<open>Standbys return every dolt database as a read only database\<close>.
  \<open>SessionDatabase\<close> wraps what it returns; \<open>DoltDatabases\<close> returns the stored values. In
  standby, with the read-write database \<open>MyDb\<close> registered, the lookup by name gives
  \<open>MyDb\<close> as a \<open>ReadOnlyDatabase\<close>, and \<open>DoltDatabases\<close> gives the \<open>Database\<close> itself.
\<close>

theorem standby_DoltDatabases_unwrapped:
  "isStandby (SetIsStandby True provider0)
   \<and> SessionDatabase 1 world0 (SetIsStandby True provider0) ''MyDb'' =
       Some (SetIsStandby True provider0, Inr (Some (ReadOnlyDatabase MyDb), True))
   \<and> DoltDatabases (SetIsStandby True provider0) [''mydb''] = [PlainDatabase MyDb]"
  by (simp add: SessionDatabase.simps SetIsStandby_def provider0_def names_eval
      DoltDatabases_def List.map_filter_simps)

section \<open>The initial provider\<close>

text \<open>
  The maps of the initial provider: a \<open>fold\<close> of updates gives, at the key of an element
  whose key occurs once, the value of that element, and nothing at a key of no element.
\<close>

lemma fold_upd_other:
  "\<forall>x \<in> set xs. key x \<noteq> k \<Longrightarrow> fold (\<lambda>x m. m(key x \<mapsto> val x)) xs m k = m k"
  by (induction xs arbitrary: m) auto

lemma fold_upd_distinct:
  "distinct (map key xs) \<Longrightarrow> i < length xs \<Longrightarrow>
   fold (\<lambda>x m. m(key x \<mapsto> val x)) xs m (key (xs ! i)) = Some (val (xs ! i))"
proof (induction xs arbitrary: m i)
  case Nil
  then show ?case by simp
next
  case (Cons x xs)
  show ?case
  proof (cases i)
    case 0
    from Cons.prems have "key x \<notin> key ` set xs" by simp
    then have "\<forall>y \<in> set xs. key y \<noteq> key x" by (metis imageI)
    then have "fold (\<lambda>x m. m(key x \<mapsto> val x)) xs (m(key x \<mapsto> val x)) (key x) =
        (m(key x \<mapsto> val x)) (key x)"
      by (rule fold_upd_other)
    then show ?thesis unfolding 0
      by (simp only: fold_simps comp_apply nth_Cons_0 fun_upd_same)
  next
    case (Suc j)
    with Cons.prems have "distinct (map key xs)" "j < length xs"
      by simp_all
    then have "fold (\<lambda>x m. m(key x \<mapsto> val x)) xs (m(key x \<mapsto> val x)) (key (xs ! j)) =
        Some (val (xs ! j))"
      by (rule Cons.IH)
    then show ?thesis unfolding Suc
      by (simp only: fold_simps comp_apply nth_Cons_Suc)
  qed
qed

lemma fold_upd_locations_other:
  "\<forall>x \<in> set xs. Name (fst x) \<noteq> k \<Longrightarrow>
   fold (\<lambda>(db, dbLocation) m. m(Name db \<mapsto> dbLocation)) xs m k = m k"
  using fold_upd_other [of xs "\<lambda>x. Name (fst x)" k snd m]
  by (simp add: case_prod_unfold)

lemma fold_upd_locations:
  "distinct (map (\<lambda>x. Name (fst x)) xs) \<Longrightarrow> i < length xs \<Longrightarrow>
   fold (\<lambda>(db, dbLocation) m. m(Name db \<mapsto> dbLocation)) xs m (Name (fst (xs ! i))) =
     Some (snd (xs ! i))"
  using fold_upd_distinct [of "\<lambda>x. Name (fst x)" xs i snd m]
  by (simp add: case_prod_unfold)

lemma distinct_lower_names:
  assumes "distinct (map (\<lambda>db. ToLower (Name db)) dbs)"
  shows "distinct (map Name dbs)"
  using assms by (simp add: distinct_map inj_on_def)

lemma SplitRevisionDbName_primary:
  "Revision db = [] \<Longrightarrow> snd (SplitRevisionDbName db) = []"
  by (simp add: SplitRevisionDbName_def Let_def)

text \<open>
  The provider made of the one database \<open>MyDb\<close>, at \<open>/data/MyDb\<close>.
\<close>

definition provider_initial :: "dirs DoltDatabaseProvider" where
  "provider_initial = provider0\<lparr>remoteDialer := False\<rparr>"

lemma provider_initial_new:
  "NewDoltDatabaseProviderWithDatabases ''main'' [(''/data/MyDb'', True)] [PlainDatabase MyDb]
     [Inr ''/data/MyDb''] = Inr provider_initial"
  by (simp add: NewDoltDatabaseProviderWithDatabases_def provider_initial_def provider0_def
      Name_def MyDb_def ToLower_def toLower_def)

text \<open>
  Two initial databases whose names differ in case only, \<open>mydb\<close> and \<open>MyDb\<close>: the later one
  takes the key \<open>mydb\<close> of the databases, and each has its location under its own name.
\<close>

definition mydb :: Database where
  "mydb = \<lparr>db_name = ''mydb'', db_ddb = 2, db_head = None, db_revision = [],
           db_revType = RevisionTypeNone\<rparr>"

definition provider_twins :: "dirs DoltDatabaseProvider" where
  "provider_twins = \<lparr>
      dbLocations = [''mydb'' \<mapsto> Inr ''/data/mydb'', ''MyDb'' \<mapsto> Inr ''/data/MyDb''],
      databases = [''mydb'' \<mapsto> PlainDatabase MyDb],
      defaultBranch = ''main'', fs = [(''/data/mydb'', True), (''/data/MyDb'', True)],
      remoteDialer = False, isStandby = False, warnings = []\<rparr>"

lemma provider_twins_new:
  "NewDoltDatabaseProviderWithDatabases ''main'' [(''/data/mydb'', True), (''/data/MyDb'', True)]
     [PlainDatabase mydb, PlainDatabase MyDb] [Inr ''/data/mydb'', Inr ''/data/MyDb'']
     = Inr provider_twins"
  by (simp add: NewDoltDatabaseProviderWithDatabases_def provider_twins_def
      Name_def MyDb_def mydb_def ToLower_def toLower_def)

text \<open>
  Claim C10, as stated: for every initial database whose name has an upper-case letter,
  \<open>SessionDatabase\<close> finds the database, and the lookup of its location under the lower-case
  key, by \<open>FileSystemForDatabase\<close> and inside \<open>DropDatabase\<close>, reports that the database is not
  found. With the initial databases \<open>mydb\<close> and \<open>MyDb\<close> the lower-case key of \<open>MyDb\<close> is the
  name of the other database: the lookup finds the location of \<open>mydb\<close>, and dropping \<open>MyDb\<close>
  succeeds and deletes the directory of \<open>mydb\<close>.
\<close>

theorem initial_location_twins_counterexample:
  "NewDoltDatabaseProviderWithDatabases ''main'' [(''/data/mydb'', True), (''/data/MyDb'', True)]
     [PlainDatabase mydb, PlainDatabase MyDb] [Inr ''/data/mydb'', Inr ''/data/MyDb'']
     = Inr provider_twins
   \<and> SessionDatabase 1 world0 provider_twins ''MyDb'' =
       Some (provider_twins, Inr (Some (PlainDatabase MyDb), True))
   \<and> FileSystemForDatabase provider_twins (ToLower ''MyDb'') = Inr (Inr ''/data/mydb'')
   \<and> DropDatabase 1 world0 provider_twins ''MyDb'' =
       Some (provider_twins\<lparr>fs := [(''/data/MyDb'', True)], databases := Map.empty\<rparr>, None)"
proof -
  have a: "SessionDatabase (Suc 0) world0 provider_twins ''MyDb'' =
       Some (provider_twins, Inr (Some (PlainDatabase MyDb), True))"
    by (simp add: SessionDatabase.simps provider_twins_def names_eval)
  have b: "FileSystemForDatabase provider_twins (ToLower ''MyDb'') = Inr (Inr ''/data/mydb'')"
    by (simp add: FileSystemForDatabase_def provider_twins_def names_eval)
  have c: "snd (SplitRevisionDbName (PlainDatabase MyDb)) = []"
    by (simp add: SplitRevisionDbName_def Revision_def Name_def MyDb_def Let_def)
  have d: "(deleteDerivatives ''mydb'' [''mydb'' \<mapsto> PlainDatabase MyDb])(''mydb'' := None) =
      Map.empty"
    by (auto simp: fun_eq_iff deleteDerivatives_def)
  have e: "DropDatabase (Suc 0) world0 provider_twins ''MyDb'' =
       Some (provider_twins\<lparr>fs := [(''/data/MyDb'', True)], databases := Map.empty\<rparr>, None)"
    by (simp add: DropDatabase_def isRevisionDatabase_def a c Let_def)
      (simp add: names_eval provider_twins_def world0_def resolve_def
        DoltDir_def invalidateDbStateInAllSessions_def d)
  from a b e show ?thesis
    by (simp add: provider_twins_new)
qed
text \<open>
  Claim C10, amended: let the initial databases have ASCII names whose lower-case forms are
  distinct. The provider keeps each database under its lower-case name and its location
  under its name as given. So for every initial database whose name \<open>N\<close> has an upper-case
  letter (and no delimiter), \<open>SessionDatabase\<close> finds the database, its location is found
  under \<open>N\<close> as given, and the lookup of the location under the lower-case key reports that
  the database is not found: \<open>FileSystemForDatabase\<close> called with the lower-case name, and
  \<open>DropDatabase\<close> (of a plain database whose storage closes), which looks up the formatted
  key.
\<close>

theorem initial_locations_by_typed_name:
  assumes new: "NewDoltDatabaseProviderWithDatabases branch rootFs dbs locations = Inr p"
    and i: "i < length dbs"
    and distinct: "distinct (map (\<lambda>db. ToLower (Name db)) dbs)"
    and ascii: "list_all (\<lambda>db. isASCII (Name db)) dbs"
    and N: "N = Name (dbs ! i)"
    and upper: "ToLower N \<noteq> N"
    and slash: "CHR ''/'' \<notin> set N"
  shows "databases p (ToLower N) = Some (dbs ! i)
       \<and> SessionDatabase (Suc n) w p N = Some (p, Inr (Some (dbs ! i), True))
       \<and> FileSystemForDatabase p N = Inr (locations ! i)
       \<and> FileSystemForDatabase p (ToLower N) = Inl (ErrDatabaseNotFound (ToLower N))
       \<and> dbLocations p (formatDbMapKeyName N) = None
       \<and> (dbs ! i = PlainDatabase d \<and> db_revision d = [] \<and> Close w (db_ddb d) = None \<longrightarrow>
            DropDatabase (Suc n) w p N = Some (p, Some (ErrDatabaseNotFound N)))"
proof -
  from new have len: "length dbs = length locations"
    by (simp add: NewDoltDatabaseProviderWithDatabases_def split: if_splits)
  from new len have dbsmap: "databases p = fold (\<lambda>db m. m(ToLower (Name db) \<mapsto> db)) dbs Map.empty"
    and locmap: "dbLocations p =
        fold (\<lambda>(db, dbLocation) m. m(Name db \<mapsto> dbLocation)) (zip dbs locations) Map.empty"
    and standby: "\<not> isStandby p"
    by (auto simp: NewDoltDatabaseProviderWithDatabases_def)
  have key: "formatDbMapKeyName N = ToLower N"
    using slash by (rule formatDbMapKeyName_base)
  have a: "databases p (ToLower N) = Some (dbs ! i)"
    unfolding dbsmap N
    using fold_upd_distinct [of "\<lambda>db. ToLower (Name db)" dbs i "\<lambda>db. db" Map.empty] distinct i
    by simp
  have b: "SessionDatabase (Suc n) w p N = Some (p, Inr (Some (dbs ! i), True))"
    using a standby by (simp add: SessionDatabase_registered key)
  have "map (\<lambda>x. Name (fst x)) (zip dbs locations) = map Name (map fst (zip dbs locations))"
    by (simp add: comp_def)
  also have "\<dots> = map Name dbs"
    using len by simp
  finally have zipnames: "map (\<lambda>x. Name (fst x)) (zip dbs locations) = map Name dbs" .
  have c: "dbLocations p N = Some (locations ! i)"
    unfolding locmap N
    using fold_upd_locations [of "zip dbs locations" i Map.empty] distinct_lower_names [OF distinct]
      i len zipnames
    by simp
  have noname: "\<forall>x \<in> set (zip dbs locations). Name (fst x) \<noteq> ToLower N"
  proof
    fix x assume "x \<in> set (zip dbs locations)"
    then have "fst x \<in> set dbs"
      by (metis prod.collapse set_zip_leftD)
    then obtain j where j: "j < length dbs" "dbs ! j = fst x"
      by (auto simp: in_set_conv_nth)
    show "Name (fst x) \<noteq> ToLower N"
    proof
      assume e: "Name (fst x) = ToLower N"
      then have "ToLower (Name (dbs ! j)) = ToLower (Name (dbs ! i))"
        using j N by (simp add: ToLower_idem)
      then have "map (\<lambda>db. ToLower (Name db)) dbs ! j = map (\<lambda>db. ToLower (Name db)) dbs ! i"
        using i j by simp
      then have "j = i"
        using nth_eq_iff_index_eq [OF distinct, of j i] i j by simp
      with j(2) have "fst x = dbs ! i"
        by simp
      with e N have "N = ToLower N"
        by (simp only:)
      with upper show False by (simp only:)
    qed
  qed
  have d: "dbLocations p (ToLower N) = None"
    unfolding locmap using fold_upd_locations_other [OF noname] by simp
  have e: "DropDatabase (Suc n) w p N = Some (p, Some (ErrDatabaseNotFound N))"
    if "dbs ! i = PlainDatabase d" "db_revision d = []" "Close w (db_ddb d) = None"
  proof -
    have "snd (SplitRevisionDbName (dbs ! i)) = []"
      using that by (intro SplitRevisionDbName_primary) (simp add: Revision_def)
    then have "isRevisionDatabase (Suc n) w p N = Some (p, Inr False)"
      using b by (simp add: isRevisionDatabase_def)
    moreover have "db_name d = N"
      using that N by (simp add: Name_def)
    ultimately show ?thesis
      using a d that by (simp add: DropDatabase_def key)
  qed
  from a b c d e show ?thesis
    by (simp add: FileSystemForDatabase_def key)
qed

theorem initial_locations_by_typed_name_witness:
  "databases provider_initial ''mydb'' = Some (PlainDatabase MyDb)
   \<and> SessionDatabase 1 world0 provider_initial ''MyDb''
       = Some (provider_initial, Inr (Some (PlainDatabase MyDb), True))
   \<and> FileSystemForDatabase provider_initial ''MyDb'' = Inr (Inr ''/data/MyDb'')
   \<and> FileSystemForDatabase provider_initial ''mydb'' = Inl (ErrDatabaseNotFound ''mydb'')
   \<and> DropDatabase 1 world0 provider_initial ''MyDb''
       = Some (provider_initial, Some (ErrDatabaseNotFound ''MyDb''))"
proof -
  have name: "Name (PlainDatabase MyDb) = ''MyDb''"
    by (simp add: Name_def MyDb_def)
  have lower: "ToLower ''MyDb'' = ''mydb''"
    by (simp add: ToLower_def toLower_def)
  have close: "Close world0 (db_ddb MyDb) = None"
    by (simp add: world0_def)
  have primary: "db_revision MyDb = []"
    by (simp add: MyDb_def)
  have i: "0 < length [PlainDatabase MyDb]"
    by simp
  have distinct: "distinct (map (\<lambda>db. ToLower (Name db)) [PlainDatabase MyDb])"
    by simp
  have ascii: "list_all (\<lambda>db. isASCII (Name db)) [PlainDatabase MyDb]"
    by (simp add: name isASCII_def)
  have N: "''MyDb'' = Name ([PlainDatabase MyDb] ! 0)"
    by (simp add: name)
  have upper: "ToLower ''MyDb'' \<noteq> ''MyDb''"
    by (simp add: lower)
  have slash: "CHR ''/'' \<notin> set ''MyDb''"
    by simp
  note initial_locations_by_typed_name [where d = MyDb and w = world0 and n = 0,
      OF provider_initial_new i distinct ascii N upper slash]
  then show ?thesis
    unfolding lower nth_Cons_0 One_nat_def
    using close primary by blast
qed

section \<open>Cleaning up after a clone that failed\<close>

text \<open>
  An inner clone that fails has registered nothing, and the message that reports a failed
  clean-up starts with the message of the failure and is longer.
\<close>

lemma cloneDatabaseFromRemote_failed_frame:
  assumes "cloneDatabaseFromRemote w p dbName remoteName branch remoteUrl = (p1, Inl err)"
  shows "databases p1 = databases p \<and> dbLocations p1 = dbLocations p"
  using assms
  by (auto simp: cloneDatabaseFromRemote_def Let_def
      split: if_splits sum.splits prod.splits option.splits)

lemma cleanupMessage_prefix: "prefix (Error err) (cleanupMessage err dbName)"
  by (simp add: cleanupMessage_def)

lemma cleanupMessage_longer: "cleanupMessage err dbName \<noteq> Error err"
  by (simp add: cleanupMessage_def)

text \<open>
  A law of a file system: a delete that reports no error leaves nothing at the path.
\<close>

definition removes :: "'fs World \<Rightarrow> bool" where
  "removes w = (\<forall>f path f'. Delete w f path True = (f', None) \<longrightarrow> \<not> fst (Exists w f' path))"

text \<open>
  Two worlds in which the remote is reached and the transfer then fails, after the directory
  of the clone was made: in \<open>world_offline\<close> the directory can be deleted, in
  \<open>world_locked\<close> the delete fails and leaves the file system as it is.
\<close>

definition world_locked :: "dirs World" where
  "world_locked = world0\<lparr>
     Delete := (\<lambda>f path force. (f, Some (ExternalError ''permission denied''))),
     CloneRemote := (\<lambda>f srcDB remoteName branch dEnv. (f, Some (ExternalError ''connection reset'')))\<rparr>"

definition world_offline :: "dirs World" where
  "world_offline = world0\<lparr>
     CloneRemote := (\<lambda>f srcDB remoteName branch dEnv. (f, Some (ExternalError ''connection reset'')))\<rparr>"

text \<open>
  Claim C5, as stated: after every failure of the inner clone the target directory does not
  exist. The clean-up is one delete whose error is only reported: where the delete fails,
  the directory that the clone made is still there when the error is returned.
\<close>

theorem CloneDatabaseFromRemote_cleanup_counterexample:
  "\<not> fst (Exists world_locked (fs provider0) ''newdb'')
   \<and> snd (CloneDatabaseFromRemote world_locked provider0 ''newdb'' ''main'' ''origin''
        ''file:///remotes/mydb'')
       = Some (Errorf (''connection reset: unable to clean up failed clone in directory '' @
           [CHR 0x27] @ ''newdb'' @ [CHR 0x27]))
   \<and> Exists world_locked
        (fs (fst (CloneDatabaseFromRemote world_locked provider0 ''newdb'' ''main'' ''origin''
          ''file:///remotes/mydb''))) ''newdb'' = (True, True)"
  by (simp add: CloneDatabaseFromRemote_def cloneDatabaseFromRemote_def world_locked_def
      world0_def provider0_def resolve_def cleanupMessage_def)

text \<open>
  Claim C5, amended: let the target not exist and the inner clone fail with \<open>err\<close>, at any
  of its steps. Then \<open>CloneDatabaseFromRemote\<close> returns an error whose message starts with
  the message of \<open>err\<close>, and has registered no database and no location. If nothing exists
  at the target after the inner clone, the error is \<open>err\<close>; else the target is deleted, and
  the error is \<open>err\<close> if the delete succeeds and \<open>err\<close> with the clean-up message attached
  if the delete fails. Whenever the error returned is \<open>err\<close> itself, the target does not
  exist afterwards, on a file system whose successful delete removes the path.
\<close>

theorem CloneDatabaseFromRemote_cleanup:
  assumes "\<not> fst (Exists w (fs p) dbName)"
    and "cloneDatabaseFromRemote w p dbName remoteName branch remoteUrl = (p1, Inl err)"
    and "CloneDatabaseFromRemote w p dbName branch remoteName remoteUrl = (p', r)"
  shows "(\<exists>e. r = Some e \<and> prefix (Error err) (Error e))
       \<and> databases p' = databases p \<and> dbLocations p' = dbLocations p
       \<and> (\<not> fst (Exists w (fs p1) dbName) \<longrightarrow> p' = p1 \<and> r = Some err)
       \<and> (fst (Exists w (fs p1) dbName) \<longrightarrow>
            p' = p1\<lparr>fs := fst (Delete w (fs p1) dbName True)\<rparr>
            \<and> (snd (Delete w (fs p1) dbName True) = None \<longrightarrow> r = Some err)
            \<and> (snd (Delete w (fs p1) dbName True) \<noteq> None \<longrightarrow>
                 r = Some (Errorf (cleanupMessage err dbName))))
       \<and> (removes w \<and> r = Some err \<longrightarrow> \<not> fst (Exists w (fs p') dbName))"
proof -
  note frame = cloneDatabaseFromRemote_failed_frame [OF assms(2)]
  have unfold: "(p', r) =
      (if fst (Exists w (fs p1) dbName) then
         (p1\<lparr>fs := fst (Delete w (fs p1) dbName True)\<rparr>,
          Some (if snd (Delete w (fs p1) dbName True) \<noteq> None
                then Errorf (cleanupMessage err dbName) else err))
       else (p1, Some err))"
    using assms by (auto simp: CloneDatabaseFromRemote_def split: prod.splits if_splits)
  show ?thesis
  proof (cases "fst (Exists w (fs p1) dbName)")
    case False
    with unfold frame show ?thesis by simp
  next
    case exists: True
    show ?thesis
    proof (cases "snd (Delete w (fs p1) dbName True)")
      case None
      with unfold exists have eq: "p' = p1\<lparr>fs := fst (Delete w (fs p1) dbName True)\<rparr>" "r = Some err"
        by simp_all
      have "Delete w (fs p1) dbName True = (fst (Delete w (fs p1) dbName True), None)"
        using None by (simp add: prod_eq_iff)
      then have "removes w \<Longrightarrow> \<not> fst (Exists w (fst (Delete w (fs p1) dbName True)) dbName)"
        unfolding removes_def by blast
      with eq frame exists None show ?thesis by auto
    next
      case (Some deleteErr)
      with unfold exists have eq: "p' = p1\<lparr>fs := fst (Delete w (fs p1) dbName True)\<rparr>"
        "r = Some (Errorf (cleanupMessage err dbName))"
        by simp_all
      have "Errorf (cleanupMessage err dbName) \<noteq> err"
        using cleanupMessage_longer [of err dbName] by (cases err) auto
      with eq frame exists Some show ?thesis
        by (simp add: cleanupMessage_prefix)
    qed
  qed
qed

theorem CloneDatabaseFromRemote_cleanup_witness:
  "\<not> fst (Exists world_offline (fs provider0) ''newdb'')
   \<and> CloneDatabaseFromRemote world_offline provider0 ''newdb'' ''main'' ''origin''
        ''file:///remotes/mydb'' = (provider0, Some (ExternalError ''connection reset''))
   \<and> \<not> fst (Exists world_offline
          (fs (fst (CloneDatabaseFromRemote world_offline provider0 ''newdb'' ''main'' ''origin''
            ''file:///remotes/mydb''))) ''newdb'')"
proof -
  have a: "\<not> fst (Exists world_offline (fs provider0) ''newdb'')"
    by (simp add: world_offline_def world0_def provider0_def resolve_def)
  have b: "cloneDatabaseFromRemote world_offline provider0 ''newdb'' ''origin'' ''main''
      ''file:///remotes/mydb''
      = (provider0\<lparr>fs := [(''/data/MyDb'', True), (''/data/newdb'', True)]\<rparr>,
         Inl (ExternalError ''connection reset''))"
    by (simp add: cloneDatabaseFromRemote_def world_offline_def world0_def provider0_def
        resolve_def)
  have c: "fst (Exists world_offline [(''/data/MyDb'', True), (''/data/newdb'', True)] ''newdb'')"
    by (simp add: world_offline_def world0_def resolve_def)
  have d: "Delete world_offline [(''/data/MyDb'', True), (''/data/newdb'', True)] ''newdb'' True
      = ([(''/data/MyDb'', True)], None)"
    by (simp add: world_offline_def world0_def resolve_def)
  have e: "provider0\<lparr>fs := [(''/data/MyDb'', True)]\<rparr> = provider0"
    by (simp add: provider0_def)
  obtain p' r where f: "CloneDatabaseFromRemote world_offline provider0 ''newdb'' ''main''
      ''origin'' ''file:///remotes/mydb'' = (p', r)"
    by (cases "CloneDatabaseFromRemote world_offline provider0 ''newdb'' ''main''
      ''origin'' ''file:///remotes/mydb''")
  have g: "removes world_offline"
    by (simp add: removes_def world_offline_def world0_def delete_conv split: option.splits)
  note t = CloneDatabaseFromRemote_cleanup [OF a b f]
  from t c d e have h: "p' = provider0" "r = Some (ExternalError ''connection reset'')"
    by simp_all
  with t g have "\<not> fst (Exists world_offline (fs p') ''newdb'')"
    by blast
  with f a h show ?thesis by simp
qed

section \<open>Names that are not found\<close>

text \<open>
  The name that \<open>databaseForClone\<close> clones: the part of the name before the first
  delimiter.
\<close>

definition cloneName :: "string \<Rightarrow> string" where
  "cloneName revDB = (if Contains_delimiter revDB then fst (SplitN_2 revDB) else revDB)"

text \<open>
  Claim C1, as stated: a name that resolves to no database gives \<open>(nil, false, nil)\<close>, never an
  error. An error of the resolution of the revision is returned to the caller: for the
  revision spec \<open>nosuch~1\<close>, an ancestor of a ref that the storage does not have, the lookup
  of the ref fails and \<open>SessionDatabase\<close> returns its error.
\<close>

theorem SessionDatabase_missing_ref_counterexample:
  "databases provider0 (formatDbMapKeyName ''MyDb/nosuch~1'') = None
   \<and> SessionDatabase 1 world0 provider0 ''MyDb/nosuch~1''
       = Some (provider0, Inl (ExternalError ''ref not found''))"
  by (simp add: SessionDatabase.simps names_eval revision_eval provider0_def world0_def MyDb_def)

text \<open>
  Claim C1, amended: for a name that is not registered, an error of the resolution of the
  revision is returned as it is; if the revision is not found and read replication is not
  set up, the result is \<open>(nil, false, nil)\<close>; if read replication is set up and the clone
  fails, the failure is logged as a warning and the result is \<open>(nil, false, nil)\<close>, not an
  error.
\<close>

theorem SessionDatabase_not_found:
  assumes "databases p (formatDbMapKeyName name) = None"
  shows "(databaseForRevision w p name = Inl err \<longrightarrow>
            SessionDatabase (Suc n) w p name = Some (p, Inl err))
       \<and> (databaseForRevision w p name = Inr (db, False) \<and> \<not> readReplicationActive w \<longrightarrow>
            SessionDatabase (Suc n) w p name = Some (p, Inr (None, False)))
       \<and> (databaseForRevision w p name = Inr (db, False) \<and> readReplicationActive w
            \<and> attemptCloneReplica w p (cloneName name) = (p1, Some cloneErr) \<longrightarrow>
            SessionDatabase (Suc n) w p name =
              Some (Warnf (''couldn't clone database '' @ cloneName name @ '': '' @ Error cloneErr) p1,
                    Inr (None, False)))"
  using assms
  by (simp add: SessionDatabase.simps databaseForClone.simps cloneName_def Let_def)

theorem SessionDatabase_not_found_witness:
  "databases provider0 (formatDbMapKeyName ''ghost'') = None
   \<and> readReplicationActive world_replica
   \<and> attemptCloneReplica world_replica provider0 ''ghost''
       = (provider0, Some (ExternalError ''remote not found''))
   \<and> SessionDatabase 1 world_replica provider0 ''ghost''
       = Some (provider0\<lparr>warnings := [''couldn't clone database ghost: remote not found'']\<rparr>,
               Inr (None, False))
   \<and> SessionDatabase 1 world0 provider0 ''ghost'' = Some (provider0, Inr (None, False))"
proof -
  have a: "databases provider0 (formatDbMapKeyName ''ghost'') = None"
    by (simp add: provider0_def names_eval)
  have b: "databaseForRevision w provider0 ''ghost'' = Inr (None, False)" for w :: "dirs World"
    by (simp add: databaseForRevision_def names_eval)
  have c: "readReplicationActive world_replica"
    by (simp add: readReplicationActive_def world_replica_def world0_def)
  have d: "cloneName ''ghost'' = ''ghost''"
    by (simp add: cloneName_def names_eval)
  have e: "attemptCloneReplica world_replica provider0 ''ghost''
       = (provider0, Some (ExternalError ''remote not found''))"
    unfolding attemptCloneReplica_def world_replica_def
    by (simp add: Replace_ghost Let_def)
      (simp add: CloneDatabaseFromRemote_def cloneDatabaseFromRemote_def world0_def
        provider0_def resolve_def)
  have f: "\<not> readReplicationActive world0"
    by (simp add: readReplicationActive_def world0_def)
  note t = SessionDatabase_not_found [OF a, where w = world_replica and db = None and n = 0
      and ?p1.0 = provider0 and cloneErr = "ExternalError ''remote not found''"]
  note u = SessionDatabase_not_found [OF a, where w = world0 and db = None and n = 0]
  from t b c d e have "SessionDatabase (Suc 0) world_replica provider0 ''ghost'' =
      Some (Warnf (''couldn't clone database '' @ ''ghost'' @ '': '' @
        Error (ExternalError ''remote not found'')) provider0, Inr (None, False))"
    by simp
  moreover from u b f have "SessionDatabase (Suc 0) world0 provider0 ''ghost'' =
      Some (provider0, Inr (None, False))"
    by simp
  ultimately show ?thesis
    using a c e by (simp add: Warnf_def provider0_def)
qed

section \<open>The lookup that is tried again after a clone\<close>

text \<open>
  The comment of \<open>databaseForClone\<close> says that it returns the database, \<^emph>\<open>or an error
  otherwise\<close>. Its last line asserts the type of what \<open>Database\<close> returns, which is nil
  whenever \<open>Database\<close> returns an error, and the assertion panics: the clone of \<open>mydb\<close>
  succeeds, the revision \<open>nosuch\<close> is not found in it, the second attempt to clone fails
  since the directory exists, and the lookup tried again reports that the database is not
  found.
\<close>

lemma SessionDatabase_retry_panics:
  "SessionDatabase 2 world_replica provider_empty ''mydb/nosuch'' =
     Some (Warnf ''couldn't clone database mydb: can't create database mydb; database exists''
             provider_cloned,
           Inl (Panic ''interface conversion: interface is nil, not dsess.SqlDatabase''))"
proof -
  have active: "readReplicationActive world_replica"
    by (simp add: readReplicationActive_def world_replica_def world0_def)
  have key: "formatDbMapKeyName ''mydb/nosuch'' = ''mydb/nosuch''"
    "Contains_delimiter ''mydb/nosuch''" "fst (SplitN_2 ''mydb/nosuch'') = ''mydb''"
    by (simp_all add: names_eval)
  have empty: "databaseForRevision world_replica provider_empty ''mydb/nosuch'' = Inr (None, False)"
    by (simp add: databaseForRevision_def names_eval provider_empty_def)
  have unregistered: "databases provider_cloned ''mydb/nosuch'' = None"
    "databases provider_empty ''mydb/nosuch'' = None"
    by (simp_all add: provider_cloned_def provider_empty_def)
  have retry: "SessionDatabase (Suc 0) world_replica provider_cloned ''mydb/nosuch'' =
      Some (Warnf ''couldn't clone database mydb: can't create database mydb; database exists''
             provider_cloned, Inr (None, False))"
    using active
    by (simp add: SessionDatabase.simps databaseForClone.simps key databaseForRevision_nosuch
        attemptCloneReplica_again unregistered)
  have two: "(2::nat) = Suc (Suc 0)"
    by simp
  show ?thesis
    unfolding two using active
    by (simp add: SessionDatabase.simps(2) [of "Suc 0"] databaseForClone.simps [of "Suc 0"]
        Database_lookup.simps [of "Suc 0"] key empty attemptCloneReplica_mydb retry
        unregistered)
qed

section \<open>Dropping a database and its derivatives\<close>

text \<open>
  A name with the delimiter is its two parts joined by the delimiter, so that the key of a
  name and the name have the same lower-case form; the loop over the map removes every key
  whose lower-case form starts with the lower-case form of the name and the delimiter.
\<close>

lemma SplitN_2_join:
  assumes "Contains_delimiter name"
  shows "name = fst (SplitN_2 name) @ DbRevisionDelimiter @ snd (SplitN_2 name)"
proof -
  let ?P = "\<lambda>c. c \<noteq> CHR ''/''"
  from assms have "dropWhile ?P name \<noteq> []"
    by (simp add: Contains_delimiter_def)
  moreover from this have "hd (dropWhile ?P name) = CHR ''/''"
    using hd_dropWhile [of ?P name] by simp
  ultimately have "dropWhile ?P name = CHR ''/'' # drop 1 (dropWhile ?P name)"
    by (cases "dropWhile ?P name") simp_all
  then have "takeWhile ?P name @ CHR ''/'' # drop 1 (dropWhile ?P name) = name"
    using takeWhile_dropWhile_id [of ?P name] by simp
  then show ?thesis
    by (simp add: SplitN_2_def DbRevisionDelimiter_def)
qed

lemma ToLower_formatDbMapKeyName: "ToLower (formatDbMapKeyName name) = ToLower name"
proof (cases "Contains_delimiter name")
  case False
  then show ?thesis
    by (simp add: formatDbMapKeyName_def ToLower_idem)
next
  case True
  have "ToLower (formatDbMapKeyName name) =
      ToLower (fst (SplitN_2 name)) @ ToLower (DbRevisionDelimiter @ snd (SplitN_2 name))"
    using True by (simp add: formatDbMapKeyName_def ToLower_append ToLower_idem split: prod.splits)
  also have "\<dots> = ToLower (fst (SplitN_2 name) @ DbRevisionDelimiter @ snd (SplitN_2 name))"
    by (simp add: ToLower_append)
  also have "\<dots> = ToLower name"
    using SplitN_2_join [OF True] by simp
  finally show ?thesis .
qed

lemma ToLower_prefix: "prefix s t \<Longrightarrow> prefix (ToLower s) (ToLower t)"
  by (auto simp: prefix_def ToLower_append)

lemma deleteDerivatives_prefix:
  "prefix (ToLower (name @ DbRevisionDelimiter)) (ToLower k) \<Longrightarrow>
   deleteDerivatives (formatDbMapKeyName name) dbs k = None"
  using ToLower_formatDbMapKeyName [of name]
  by (simp add: deleteDerivatives_def ToLower_append)

lemma DropDatabase_success:
  assumes "DropDatabase n w p name = Some (p', None)"
    and "k = formatDbMapKeyName name \<or> prefix (ToLower (name @ DbRevisionDelimiter)) (ToLower k)"
  shows "databases p' k = None"
  using assms
  by (auto simp: DropDatabase_def Let_def deleteDerivatives_prefix
      split: option.splits sum.splits prod.splits bool.splits SqlDatabase.splits if_splits)

lemma DropDatabase_revision:
  assumes "SessionDatabase n w p name = Some (p1, Inr (Some db, True))"
    and "snd (SplitRevisionDbName db) \<noteq> []"
  shows "DropDatabase n w p name =
      Some (p1, Some (Errorf (''unable to drop revision database: '' @ name)))"
  using assms by (simp add: DropDatabase_def isRevisionDatabase_def)

text \<open>
  The revision database of a plain database is refused: dropping \<open>MyDb/main\<close>, the branch
  \<open>main\<close> of the registered \<open>MyDb\<close>, fails with the error that a revision database cannot
  be dropped.
\<close>

lemma DropDatabase_revision_refused:
  "DropDatabase 1 world0 provider0 ''MyDb/main'' =
     Some (provider0, Some (Errorf ''unable to drop revision database: MyDb/main''))"
proof -
  let ?main = "PlainDatabase \<lparr>db_name = ''MyDb/main'', db_ddb = 1, db_head = Some ''main'',
      db_revision = ''main'', db_revType = RevisionTypeBranch\<rparr>"
  have a: "SessionDatabase (Suc 0) world0 provider0 ''MyDb/main'' =
      Some (provider0, Inr (Some ?main, True))"
    by (simp add: SessionDatabase.simps names_eval revision_eval provider0_def world0_def MyDb_def)
  have b: "snd (SplitRevisionDbName ?main) \<noteq> []"
    by (simp add: SplitRevisionDbName_def Revision_def Name_def Let_def)
  show ?thesis
    using a b by (simp add: DropDatabase_def isRevisionDatabase_def)
qed

text \<open>
  A provider whose database \<open>MyDb\<close> is registered as a \<open>ReadOnlyDatabase\<close>.
\<close>

definition provider_readonly :: "dirs DoltDatabaseProvider" where
  "provider_readonly = provider0\<lparr>databases := [''mydb'' \<mapsto> ReadOnlyDatabase MyDb]\<rparr>"

text \<open>
  Claim C4: \<open>DropDatabase\<close> fails with an error for every name of a revision database, and
  after a drop that succeeds neither the entry of the name nor an entry of a derivative
  remains (lemma \<open>DropDatabase_success\<close>). For the branch \<open>main\<close> of a database registered
  as a \<open>ReadOnlyDatabase\<close> the drop does not return the error: the type switch of
  \<open>revisionDbForBranch\<close> has no case for a \<open>ReadOnlyDatabase\<close> and leaves the database nil,
  \<open>databaseForRevision\<close> returns it as found, and \<open>isRevisionDatabase\<close> reads the revision of
  nil, which panics.
\<close>

theorem DropDatabase_revision_of_read_only:
  "databaseForRevision world0 provider_readonly ''MyDb/main'' = Inr (None, True)
   \<and> SessionDatabase 1 world0 provider_readonly ''MyDb/main'' =
       Some (provider_readonly, Inr (None, True))
   \<and> DropDatabase 1 world0 provider_readonly ''MyDb/main'' =
       Some (provider_readonly,
         Some (Panic ''invalid memory address or nil pointer dereference''))"
proof -
  have a: "databaseForRevision world0 provider_readonly ''MyDb/main'' = Inr (None, True)"
    by (simp add: names_eval revision_eval provider_readonly_def provider0_def world0_def
        MyDb_def)
  have b: "databases provider_readonly (formatDbMapKeyName ''MyDb/main'') = None"
    "\<not> isStandby provider_readonly"
    by (simp_all add: names_eval provider_readonly_def provider0_def)
  have c: "SessionDatabase (Suc 0) world0 provider_readonly ''MyDb/main'' =
       Some (provider_readonly, Inr (None, True))"
    using a b by (simp add: SessionDatabase.simps)
  from a c show ?thesis
    by (simp add: DropDatabase_def isRevisionDatabase_def)
qed

end
